theory Spec2Isabelle
  imports Complex_Main
begin

section \<open>Values, errors and the services the bot talks to\<close>

text \<open>
  The bot (\<^verbatim>\<open>src/bot.js\<close>) is glue code around three libraries: axios (HTTP), the
  Solana web3 client (\<^verbatim>\<open>Connection\<close>, \<^verbatim>\<open>PublicKey\<close>) and Telegraf (chat transport).
  The libraries are not part of the repository, so what they answer is a parameter of the
  model (the record \<open>env\<close>); everything the repository's own code does with the answers
  is translated function by function.

  A JavaScript \<^verbatim>\<open>Error\<close> carries a message and, optionally, a cause
  (\<^verbatim>\<open>new Error(msg, {cause})\<close>); \<^verbatim>\<open>new Error(msg)\<close> has none.
\<close>

datatype js_error = Error (message: string) (cause: "js_error option")

text \<open>The values that end up in a reply. Numbers are modelled exactly, as rationals; the
  program's numbers are the IEEE doubles nearest to them.\<close>

datatype jsval = Undefined | Null | Num rat | Str string

fun truthy :: "jsval \<Rightarrow> bool" where
  "truthy Undefined = False"
| "truthy Null = False"
| "truthy (Num n) = (n \<noteq> 0)"
| "truthy (Str s) = (s \<noteq> [])"

text \<open>Reading a property of \<^verbatim>\<open>undefined\<close> throws a TypeError with this message.\<close>

definition type_error_undefined :: "string \<Rightarrow> js_error" where
  "type_error_undefined prop =
     Error (''Cannot read properties of undefined (reading '' @ [CHR 0x27] @ prop @ [CHR 0x27] @ '')'') None"

text \<open>\<^verbatim>\<open>response.data.data\<close> of the metadata API: the two fields the bot reads.\<close>

record token_info =
  name :: jsval
  symbol :: jsval

text \<open>One element of the price API's answer (\<^verbatim>\<open>coin.id\<close>, \<^verbatim>\<open>coin.current_price\<close>).\<close>

datatype coin = Coin (coin_id: string) (current_price: jsval)

datatype publickey = PublicKey string

text \<open>
  \<^verbatim>\<open>account.data\<close> of a token account: either raw bytes, which have no \<^verbatim>\<open>parsed\<close>
  member, or the parsed form, of which the bot reads
  \<^verbatim>\<open>parsed.info.tokenAmount.uiAmount\<close>.
\<close>

datatype account_data = Raw | Parsed jsval

datatype token_account = TokenAccount (pubkey: publickey) (account_data: account_data)

text \<open>Outbound calls, as the source issues them. A call is \<open>Direct\<close> when the source
  invokes the client itself and \<open>Limited\<close> when it hands the call to the rate limiter.\<close>

datatype request =
    HttpGet string "(string \<times> string) list" "(string \<times> string) list"
  | GetTokenAccountsByOwner publickey publickey
  | GetRecentBlockhash
  | GetBalance publickey

datatype route = Direct | Limited

type_synonym outbound = "route \<times> request"

record bottleneck =
  minTime :: nat
  maxConcurrent :: nat

text \<open>The limiter object the source constructs. No function of the source refers to it.\<close>

definition limiter :: bottleneck where
  "limiter = \<lparr>minTime = 300, maxConcurrent = 5\<rparr>"

text \<open>A reply is a template literal: literal text and interpolated values.\<close>

datatype piece = Lit string | Val jsval

text \<open>
  The outside world during one command: the credential from the process environment, the
  \<^verbatim>\<open>PublicKey\<close> constructor (which throws on a string that does not parse), and the
  answer of each service to each request (\<open>Inl\<close>: the promise is rejected), the chat
  transport's answer to the sending of a reply among them.
\<close>

record env =
  SOLSCAN_API_KEY :: string
  newPublicKey :: "string \<Rightarrow> js_error + publickey"
  axios_get_tokenInfo :: "string \<Rightarrow> (string \<times> string) list \<Rightarrow> js_error + token_info option"
  axios_get_markets :: "string \<Rightarrow> (string \<times> string) list \<Rightarrow> js_error + coin list"
  getTokenAccountsByOwner :: "publickey \<Rightarrow> publickey \<Rightarrow> js_error + token_account list"
  getRecentBlockhash :: "js_error + nat"
  getBalance :: "publickey \<Rightarrow> js_error + nat"
  sendMessage :: "piece list \<Rightarrow> js_error + unit"
  launch :: "js_error + unit"

definition SOLSCAN_API_URL :: string where
  "SOLSCAN_API_URL = ''https://api.solscan.io''"

definition COINGECKO_API_URL :: string where
  "COINGECKO_API_URL = ''https://api.coingecko.com/api/v3''"

section \<open>What the bot does: log lines, outbound calls, replies\<close>

datatype level = INFO | ERROR

text \<open>
  \<open>replies\<close> holds the texts handed to \<^verbatim>\<open>ctx.reply\<close>, in order, whether or not the send
  succeeds; \<open>unhandled\<close> holds the rejections that no code handles.
\<close>

record state =
  logged :: "(level \<times> string) list"
  calls :: "outbound list"
  replies :: "piece list list"
  unhandled :: "js_error list"

definition logger_error :: "string \<Rightarrow> state \<Rightarrow> state" where
  "logger_error msg s = s\<lparr>logged := logged s @ [(ERROR, msg)]\<rparr>"

definition logger_info :: "string \<Rightarrow> state \<Rightarrow> state" where
  "logger_info msg s = s\<lparr>logged := logged s @ [(INFO, msg)]\<rparr>"

definition direct_call :: "request \<Rightarrow> state \<Rightarrow> state" where
  "direct_call r s = s\<lparr>calls := calls s @ [(Direct, r)]\<rparr>"

text \<open>
  \<^verbatim>\<open>ctx.reply(text)\<close> sends the text and returns a promise that no handler awaits. Where
  the handler does not return it, a rejected send is a rejection that nothing handles.
\<close>

definition ctx_reply :: "env \<Rightarrow> piece list \<Rightarrow> state \<Rightarrow> state" where
  "ctx_reply env text s =
     (case sendMessage env text of
        Inr _ \<Rightarrow> s\<lparr>replies := replies s @ [text]\<rparr>
      | Inl error \<Rightarrow> s\<lparr>replies := replies s @ [text], unhandled := unhandled s @ [error]\<rparr>)"

text \<open>\<^verbatim>\<open>return ctx.reply(text)\<close> in an async handler: the handler's promise settles as the
  send does.\<close>

definition return_ctx_reply :: "env \<Rightarrow> piece list \<Rightarrow> state \<Rightarrow> (js_error + unit) \<times> state" where
  "return_ctx_reply env text s = (sendMessage env text, s\<lparr>replies := replies s @ [text]\<rparr>)"

section \<open>The service clients\<close>

text \<open>\<^verbatim>\<open>getTokenInfoFromSolscan\<close>: one GET with the bearer credential; any failure is
  logged and replaced by a fixed error.\<close>

definition getTokenInfoFromSolscan ::
  "env \<Rightarrow> string \<Rightarrow> state \<Rightarrow> (js_error + token_info option) \<times> state" where
  "getTokenInfoFromSolscan env tokenAddress s =
     (let url = SOLSCAN_API_URL @ ''/api/v1/tokenInfo/'' @ tokenAddress;
          headers = [(''Authorization'', ''Bearer '' @ SOLSCAN_API_KEY env)];
          s1 = direct_call (HttpGet url headers []) s
      in case axios_get_tokenInfo env url headers of
           Inr data \<Rightarrow> (Inr data, s1)
         | Inl error \<Rightarrow>
             (Inl (Error ''Failed to fetch token info.'' None),
              logger_error (''Error fetching token info from Solscan: '' @ message error) s1))"

text \<open>
  \<^verbatim>\<open>tokenAccount.value[0]?.account.data.parsed.info.tokenAmount.uiAmount\<close>: with no first
  element the optional chain yields \<^verbatim>\<open>undefined\<close>; with raw account data
  \<^verbatim>\<open>data.parsed\<close> is \<^verbatim>\<open>undefined\<close> and reading \<^verbatim>\<open>info\<close> of it throws.
\<close>

definition uiAmount :: "token_account list \<Rightarrow> js_error + jsval" where
  "uiAmount val =
     (case val of
        [] \<Rightarrow> Inr Undefined
      | acc # _ \<Rightarrow>
          (case account_data acc of
             Raw \<Rightarrow> Inl (type_error_undefined ''info'')
           | Parsed v \<Rightarrow> Inr v))"

text \<open>\<^verbatim>\<open>x || 0\<close>\<close>

definition or_zero :: "jsval \<Rightarrow> jsval" where
  "or_zero v = (if truthy v then v else Num 0)"

text \<open>The body of the \<^verbatim>\<open>try\<close> block of \<^verbatim>\<open>getTokenBalance\<close>: both keys are built
  before the RPC call is made.\<close>

definition getTokenBalance_try ::
  "env \<Rightarrow> string \<Rightarrow> string \<Rightarrow> state \<Rightarrow> (js_error + jsval) \<times> state" where
  "getTokenBalance_try env address tokenAddress s =
     (case newPublicKey env address of
        Inl error \<Rightarrow> (Inl error, s)
      | Inr publicKey \<Rightarrow>
          (case newPublicKey env tokenAddress of
             Inl error \<Rightarrow> (Inl error, s)
           | Inr mint \<Rightarrow>
               (let s1 = direct_call (GetTokenAccountsByOwner publicKey mint) s
                in case getTokenAccountsByOwner env publicKey mint of
                     Inl error \<Rightarrow> (Inl error, s1)
                   | Inr val \<Rightarrow>
                       (case uiAmount val of
                          Inl error \<Rightarrow> (Inl error, s1)
                        | Inr v \<Rightarrow> (Inr (or_zero v), s1)))))"

definition getTokenBalance ::
  "env \<Rightarrow> string \<Rightarrow> string \<Rightarrow> state \<Rightarrow> (js_error + jsval) \<times> state" where
  "getTokenBalance env address tokenAddress s =
     (case getTokenBalance_try env address tokenAddress s of
        (Inr v, s1) \<Rightarrow> (Inr v, s1)
      | (Inl error, s1) \<Rightarrow>
          (Inl (Error ''Failed to fetch token balance.'' None),
           logger_error (''Error fetching token balance: '' @ message error) s1))"

text \<open>\<^verbatim>\<open>getCryptoPrices\<close>: the currency and the three asset ids are constants of the
  source; the answer is folded into an object keyed by \<^verbatim>\<open>coin.id\<close>.\<close>

definition markets_params :: "(string \<times> string) list" where
  "markets_params = [(''vs_currency'', ''usd''), (''ids'', ''solana,bitcoin,ethereum'')]"

definition prices_of :: "coin list \<Rightarrow> (string \<rightharpoonup> jsval)" where
  "prices_of data = fold (\<lambda>coin m. m(coin_id coin \<mapsto> current_price coin)) data Map.empty"

definition getCryptoPrices :: "env \<Rightarrow> state \<Rightarrow> (js_error + (string \<rightharpoonup> jsval)) \<times> state" where
  "getCryptoPrices env s =
     (let url = COINGECKO_API_URL @ ''/coins/markets'';
          s1 = direct_call (HttpGet url [] markets_params) s
      in case axios_get_markets env url markets_params of
           Inr data \<Rightarrow> (Inr (prices_of data), s1)
         | Inl error \<Rightarrow>
             (Inl (Error ''Failed to fetch crypto prices.'' None),
              logger_error (''Error fetching crypto prices: '' @ message error) s1))"

text \<open>\<^verbatim>\<open>getSolanaGasFee\<close>: \<^verbatim>\<open>lamportsPerSignature / 1000000000\<close>.\<close>

definition getSolanaGasFee :: "env \<Rightarrow> state \<Rightarrow> (js_error + rat) \<times> state" where
  "getSolanaGasFee env s =
     (let s1 = direct_call GetRecentBlockhash s
      in case getRecentBlockhash env of
           Inr lamportsPerSignature \<Rightarrow> (Inr (of_nat lamportsPerSignature / 1000000000), s1)
         | Inl error \<Rightarrow>
             (Inl (Error ''Failed to get Solana gas fee.'' None),
              logger_error (''Error fetching gas fee: '' @ message error) s1))"

section \<open>The analysis\<close>

record analysis =
  tokenInfo :: "token_info option"
  balance :: jsval
  prices :: "string \<rightharpoonup> jsval"
  gasFee :: rat

text \<open>The \<^verbatim>\<open>try\<close> block of \<^verbatim>\<open>analyzeToken\<close>: four awaits in a row; a rejected one ends
  the block.\<close>

definition analyzeToken_try ::
  "env \<Rightarrow> string \<Rightarrow> string \<Rightarrow> state \<Rightarrow> (js_error + analysis) \<times> state" where
  "analyzeToken_try env address tokenAddress s =
     (case getTokenInfoFromSolscan env tokenAddress s of
        (Inl error, s1) \<Rightarrow> (Inl error, s1)
      | (Inr info, s1) \<Rightarrow>
          (case getTokenBalance env address tokenAddress s1 of
             (Inl error, s2) \<Rightarrow> (Inl error, s2)
           | (Inr bal, s2) \<Rightarrow>
               (case getCryptoPrices env s2 of
                  (Inl error, s3) \<Rightarrow> (Inl error, s3)
                | (Inr quotes, s3) \<Rightarrow>
                    (case getSolanaGasFee env s3 of
                       (Inl error, s4) \<Rightarrow> (Inl error, s4)
                     | (Inr fee, s4) \<Rightarrow>
                         (Inr \<lparr>tokenInfo = info, balance = bal,
                               prices = quotes, gasFee = fee\<rparr>, s4)))))"

definition analyzeToken ::
  "env \<Rightarrow> string \<Rightarrow> string \<Rightarrow> state \<Rightarrow> (js_error + analysis) \<times> state" where
  "analyzeToken env address tokenAddress s =
     (case analyzeToken_try env address tokenAddress s of
        (Inr a, s1) \<Rightarrow> (Inr a, s1)
      | (Inl error, s1) \<Rightarrow>
          (Inl (Error ''Failed to analyze token.'' None),
           logger_error (''Error during analysis: '' @ message error) s1))"

section \<open>The command handlers\<close>

text \<open>
  \<^verbatim>\<open>text.split(' ')\<close>: the text is cut at every single space, so the result is never
  empty and two spaces in a row give an empty element.
\<close>

fun split_space :: "string \<Rightarrow> string list" where
  "split_space [] = [[]]"
| "split_space (c # cs) =
     (if c = CHR '' '' then [] # split_space cs
      else (case split_space cs of
              w # ws \<Rightarrow> (c # w) # ws
            | [] \<Rightarrow> [[c]]))"

text \<open>\<^verbatim>\<open>ctx.message.text.split(' ').slice(1)\<close>\<close>

definition command_args :: "string \<Rightarrow> string list" where
  "command_args text = drop 1 (split_space text)"

text \<open>The emoji of the replies, as their UTF-8 bytes, and the line feed.\<close>

definition cross_mark :: string where
  "cross_mark = [CHR 0xE2, CHR 0x9D, CHR 0x8C]"

definition magnifier :: string where
  "magnifier = [CHR 0xF0, CHR 0x9F, CHR 0x94, CHR 0x8D]"

definition receipt :: string where
  "receipt = [CHR 0xF0, CHR 0x9F, CHR 0xA7, CHR 0xBE]"

definition bar_chart :: string where
  "bar_chart = [CHR 0xF0, CHR 0x9F, CHR 0x93, CHR 0x8A]"

definition money_bag :: string where
  "money_bag = [CHR 0xF0, CHR 0x9F, CHR 0x92, CHR 0xB0]"

definition fuel_pump :: string where
  "fuel_pump = [CHR 0xE2, CHR 0x9B, CHR 0xBD]"

definition rocket :: string where
  "rocket = [CHR 0xF0, CHR 0x9F, CHR 0x9A, CHR 0x80]"

definition nl :: string where
  "nl = [CHR 0x0A]"

text \<open>\<^verbatim>\<open>obj.key\<close> on an object built by assignments: \<^verbatim>\<open>undefined\<close> when the key was
  never assigned.\<close>

definition get_prop :: "(string \<rightharpoonup> jsval) \<Rightarrow> string \<Rightarrow> jsval" where
  "get_prop obj k = (case obj k of None \<Rightarrow> Undefined | Some v \<Rightarrow> v)"

text \<open>The reply of every \<^verbatim>\<open>catch\<close> block of a handler.\<close>

definition error_reply :: "js_error \<Rightarrow> piece list" where
  "error_reply error = [Lit (cross_mark @ '' Error: ''), Val (Str (message error))]"

text \<open>The template of the analysis reply. When the metadata answer had no \<^verbatim>\<open>data\<close>
  member, reading \<^verbatim>\<open>analysis.tokenInfo.name\<close> throws.\<close>

definition check_template :: "analysis \<Rightarrow> js_error + piece list" where
  "check_template a =
     (case tokenInfo a of
        None \<Rightarrow> Inl (type_error_undefined ''name'')
      | Some info \<Rightarrow>
          Inr [Lit (nl @ ''            '' @ receipt @ '' **Token Analysis:**'' @ nl @
                    ''            - **Token Name**: ''),
               Val (name info),
               Lit (nl @ ''            - **Token Symbol**: ''),
               Val (symbol info),
               Lit (nl @ ''            - **Token Price**: $''),
               Val (get_prop (prices a) ''solana''),
               Lit (nl @ ''            - **Your Balance**: ''),
               Val (balance a),
               Lit '' '',
               Val (symbol info),
               Lit (nl @ ''            - **Gas Fee**: ''),
               Val (Num (gasFee a)),
               Lit ('' SOL'' @ nl @ ''        '')])"

definition check_try :: "env \<Rightarrow> string \<Rightarrow> string \<Rightarrow> state \<Rightarrow> (js_error + unit) \<times> state" where
  "check_try env address tokenAddress s =
     (let s1 = ctx_reply env [Lit (magnifier @ '' Analyzing the token. Please wait...'')] s
      in case analyzeToken env address tokenAddress s1 of
           (Inl error, s2) \<Rightarrow> (Inl error, s2)
         | (Inr a, s2) \<Rightarrow>
             (case check_template a of
                Inl error \<Rightarrow> (Inl error, s2)
              | Inr text \<Rightarrow> (Inr (), ctx_reply env text s2)))"

text \<open>\<^verbatim>\<open>bot.command('check', ...)\<close>: the first argument is the token, the second the
  wallet.\<close>

definition check_command :: "env \<Rightarrow> string \<Rightarrow> state \<Rightarrow> (js_error + unit) \<times> state" where
  "check_command env text s =
     (let args = command_args text
      in if length args < 2
         then return_ctx_reply env
                [Lit (cross_mark @ '' Usage: /check <TOKEN_ADDRESS> <SOLANA_ADDRESS>'')] s
         else (let tokenAddress = args ! 0; address = args ! 1
               in case check_try env address tokenAddress s of
                    (Inr u, s1) \<Rightarrow> (Inr u, s1)
                  | (Inl error, s1) \<Rightarrow> (Inr (), ctx_reply env (error_reply error) s1)))"

definition balance_try :: "env \<Rightarrow> string \<Rightarrow> state \<Rightarrow> (js_error + unit) \<times> state" where
  "balance_try env address s =
     (case newPublicKey env address of
        Inl error \<Rightarrow> (Inl error, s)
      | Inr publicKey \<Rightarrow>
          (let s1 = direct_call (GetBalance publicKey) s
           in case getBalance env publicKey of
                Inl error \<Rightarrow> (Inl error, s1)
              | Inr lamports \<Rightarrow>
                  (Inr (), ctx_reply env
                     [Lit (bar_chart @ '' **Solana Balance**: ''),
                      Val (Num (of_nat lamports / 1000000000)),
                      Lit '' SOL''] s1)))"

definition balance_command :: "env \<Rightarrow> string \<Rightarrow> state \<Rightarrow> (js_error + unit) \<times> state" where
  "balance_command env text s =
     (let args = command_args text
      in if length args < 1
         then return_ctx_reply env [Lit (cross_mark @ '' Usage: /balance <SOLANA_ADDRESS>'')] s
         else (let address = args ! 0
               in case balance_try env address s of
                    (Inr u, s1) \<Rightarrow> (Inr u, s1)
                  | (Inl error, s1) \<Rightarrow> (Inr (), ctx_reply env (error_reply error) s1)))"

definition prices_command :: "env \<Rightarrow> state \<Rightarrow> (js_error + unit) \<times> state" where
  "prices_command env s =
     (case getCryptoPrices env s of
        (Inr quotes, s1) \<Rightarrow>
          (Inr (), ctx_reply env
             [Lit (nl @ ''            '' @ money_bag @ '' **Current Crypto Prices**:'' @ nl @
                   ''            - Solana: $''),
              Val (get_prop quotes ''solana''),
              Lit (nl @ ''            - Bitcoin: $''),
              Val (get_prop quotes ''bitcoin''),
              Lit (nl @ ''            - Ethereum: $''),
              Val (get_prop quotes ''ethereum''),
              Lit (nl @ ''        '')] s1)
      | (Inl error, s1) \<Rightarrow> (Inr (), ctx_reply env (error_reply error) s1))"

definition gas_command :: "env \<Rightarrow> state \<Rightarrow> (js_error + unit) \<times> state" where
  "gas_command env s =
     (case getSolanaGasFee env s of
        (Inr fee, s1) \<Rightarrow>
          (Inr (), ctx_reply env
             [Lit (fuel_pump @ '' **Solana Gas Fee**: ''),
              Val (Num fee),
              Lit '' SOL per transaction''] s1)
      | (Inl error, s1) \<Rightarrow> (Inr (), ctx_reply env (error_reply error) s1))"

definition help_command :: "env \<Rightarrow> state \<Rightarrow> (js_error + unit) \<times> state" where
  "help_command env s =
     (Inr (), ctx_reply env
        [Lit (nl @ ''        '' @ rocket @ '' **Solana Honeypot Checker Bot - Commands**:'' @ nl @
              nl @
              ''        /check <TOKEN_ADDRESS> <SOLANA_ADDRESS> - Analyze token info'' @ nl @
              ''        /balance <SOLANA_ADDRESS> - Get Solana balance'' @ nl @
              ''        /prices - Get current prices of Solana, Bitcoin, and Ethereum'' @ nl @
              ''        /gas - Get Solana gas fees'' @ nl @
              ''        /help - Display this help message'' @ nl @
              ''    '')] s)"

section \<open>The process\<close>

text \<open>
  The chat transport hands each message that carries a registered command to that command's
  handler. A run of the process is the list of messages it receives, each with the outside
  world as it is while the message is handled. No error handler is registered with the
  transport, so a handler whose promise is rejected ends the run with that error, and so
  does a rejection that nothing handles; the model lets the handler that caused it finish
  first.
\<close>

datatype command = Check | Balance | Prices | Gas | Help

definition on_command :: "env \<Rightarrow> command \<Rightarrow> string \<Rightarrow> state \<Rightarrow> (js_error + unit) \<times> state" where
  "on_command env c text s =
     (case c of
        Check \<Rightarrow> check_command env text s
      | Balance \<Rightarrow> balance_command env text s
      | Prices \<Rightarrow> prices_command env s
      | Gas \<Rightarrow> gas_command env s
      | Help \<Rightarrow> help_command env s)"

fun serve :: "(env \<times> command \<times> string) list \<Rightarrow> state \<Rightarrow> (js_error + unit) \<times> state" where
  "serve [] s = (Inr (), s)"
| "serve ((env, c, text) # rest) s =
     (case on_command env c text s of
        (Inl error, s1) \<Rightarrow> (Inl error, s1)
      | (Inr _, s1) \<Rightarrow>
          (case unhandled s1 of
             [] \<Rightarrow> serve rest s1
           | error # _ \<Rightarrow> (Inl error, s1)))"

text \<open>\<^verbatim>\<open>bot.launch().then(...).catch(...)\<close>\<close>

definition bot_launch :: "env \<Rightarrow> state \<Rightarrow> state" where
  "bot_launch env s =
     (case launch env of
        Inr _ \<Rightarrow> logger_info ''Bot is running'' s
      | Inl error \<Rightarrow> logger_error (''Bot launch failed: '' @ message error) s)"

definition start :: state where
  "start = \<lparr>logged = [], calls = [], replies = [], unhandled = []\<rparr>"

section \<open>Stub services for concrete runs\<close>

text \<open>
  A wallet and a mint the stub key parser accepts (it rejects every other string, with the
  constructor's message for a character outside the base58 alphabet and for a decoded length
  other than 32 bytes), and stub services that all answer:
  a metadata record, no token account, three prices (to the request for usd prices of
  solana, bitcoin and ethereum, and to no other), a fee of 5000 lamports per signature,
  a balance of 2.5 SOL. Variants of it make one service fail.
\<close>

definition wallet_A :: string where
  "wallet_A = ''9xQeWvG816bUx9EPjHmaT23yvVM2ZWbrrpZb9PusVFin''"

definition mint_A :: string where
  "mint_A = ''EPjFWdd5AufqSSqeM2qN1xzybapC8G4wEGGkZwyTDt1v''"

definition base58 :: string where
  "base58 = ''123456789ABCDEFGHJKLMNPQRSTUVWXYZabcdefghijkmnopqrstuvwxyz''"

definition stub_newPublicKey :: "string \<Rightarrow> js_error + publickey" where
  "stub_newPublicKey s =
     (if \<not> set s \<subseteq> set base58 then Inl (Error ''Non-base58 character'' None)
      else if s = wallet_A \<or> s = mint_A then Inr (PublicKey s)
      else Inl (Error ''Invalid public key input'' None))"

definition stub_env :: env where
  "stub_env =
     \<lparr>SOLSCAN_API_KEY = [],
      newPublicKey = stub_newPublicKey,
      axios_get_tokenInfo = (\<lambda>url headers. Inr (Some \<lparr>name = Str ''USD Coin'', symbol = Str ''USDC''\<rparr>)),
      axios_get_markets = (\<lambda>url params.
         if url = ''https://api.coingecko.com/api/v3/coins/markets'' \<and>
            params = [(''vs_currency'', ''usd''), (''ids'', ''solana,bitcoin,ethereum'')]
         then Inr [Coin ''bitcoin'' (Num 60000), Coin ''ethereum'' (Num 3000),
                   Coin ''solana'' (Num 150)]
         else Inl (Error ''Request failed with status code 404'' None)),
      getTokenAccountsByOwner = (\<lambda>owner mint. Inr []),
      getRecentBlockhash = Inr 5000,
      getBalance = (\<lambda>publicKey. Inr 2500000000),
      sendMessage = (\<lambda>text. Inr ()),
      launch = Inr ()\<rparr>"

definition http_500 :: js_error where
  "http_500 = Error ''Request failed with status code 500'' None"

definition rpc_down :: js_error where
  "rpc_down = Error ''fetch failed'' None"

definition env_metadata_down :: env where
  "env_metadata_down = stub_env\<lparr>axios_get_tokenInfo := (\<lambda>url headers. Inl http_500)\<rparr>"

definition env_prices_down :: env where
  "env_prices_down = stub_env\<lparr>axios_get_markets := (\<lambda>url params. Inl http_500)\<rparr>"

definition env_fee_down :: env where
  "env_fee_down = stub_env\<lparr>getRecentBlockhash := Inl rpc_down\<rparr>"

definition env_balance_down :: env where
  "env_balance_down = stub_env\<lparr>getBalance := (\<lambda>publicKey. Inl rpc_down)\<rparr>"

definition env_send_down :: env where
  "env_send_down = stub_env\<lparr>sendMessage := (\<lambda>text. Inl rpc_down)\<rparr>"

section \<open>The stub key parser on the inputs used below\<close>

lemma stub_wallet: "stub_newPublicKey wallet_A = Inr (PublicKey wallet_A)"
  by (simp add: stub_newPublicKey_def base58_def wallet_A_def)

lemma stub_mint: "stub_newPublicKey mint_A = Inr (PublicKey mint_A)"
  by (simp add: stub_newPublicKey_def base58_def mint_A_def)

lemma stub_xyz: "stub_newPublicKey ''xyz'' = Inl (Error ''Invalid public key input'' None)"
  by (simp add: stub_newPublicKey_def base58_def wallet_A_def mint_A_def)

lemma stub_empty: "stub_newPublicKey [] = Inl (Error ''Invalid public key input'' None)"
  by (simp add: stub_newPublicKey_def wallet_A_def mint_A_def)

lemma stub_dash: "stub_newPublicKey ''not-an-address'' = Inl (Error ''Non-base58 character'' None)"
  by (simp add: stub_newPublicKey_def base58_def)

lemmas stub_keys = stub_wallet stub_mint stub_xyz stub_empty

section \<open>Effects of the building blocks\<close>

lemma calls_logger_error [simp]: "calls (logger_error msg s) = calls s"
  by (simp add: logger_error_def)

lemma replies_logger_error [simp]: "replies (logger_error msg s) = replies s"
  by (simp add: logger_error_def)

lemma calls_direct_call [simp]: "calls (direct_call r s) = calls s @ [(Direct, r)]"
  by (simp add: direct_call_def)

lemma replies_direct_call [simp]: "replies (direct_call r s) = replies s"
  by (simp add: direct_call_def)

lemma calls_ctx_reply [simp]: "calls (ctx_reply env text s) = calls s"
  by (simp add: ctx_reply_def split: sum.splits)

lemma replies_ctx_reply [simp]: "replies (ctx_reply env text s) = replies s @ [text]"
  by (simp add: ctx_reply_def split: sum.splits)

lemma getTokenInfoFromSolscan_calls:
  "calls (snd (getTokenInfoFromSolscan env tokenAddress s)) =
     calls s @ [(Direct, HttpGet (SOLSCAN_API_URL @ ''/api/v1/tokenInfo/'' @ tokenAddress)
                   [(''Authorization'', ''Bearer '' @ SOLSCAN_API_KEY env)] [])]"
  by (simp add: getTokenInfoFromSolscan_def Let_def split: sum.splits)

lemma getTokenInfoFromSolscan_replies:
  "replies (snd (getTokenInfoFromSolscan env tokenAddress s)) = replies s"
  by (simp add: getTokenInfoFromSolscan_def Let_def split: sum.splits)

lemma getCryptoPrices_calls:
  "calls (snd (getCryptoPrices env s)) =
     calls s @ [(Direct, HttpGet (COINGECKO_API_URL @ ''/coins/markets'') [] markets_params)]"
  by (simp add: getCryptoPrices_def Let_def split: sum.splits)

lemma getCryptoPrices_replies:
  "replies (snd (getCryptoPrices env s)) = replies s"
  by (simp add: getCryptoPrices_def Let_def split: sum.splits)

lemma getCryptoPrices_Inr:
  "getCryptoPrices env s = (Inr quotes, s1) \<Longrightarrow>
     \<exists>data. axios_get_markets env (COINGECKO_API_URL @ ''/coins/markets'') markets_params = Inr data \<and>
            quotes = prices_of data"
  by (auto simp add: getCryptoPrices_def Let_def split: sum.splits)

lemma getSolanaGasFee_calls:
  "calls (snd (getSolanaGasFee env s)) = calls s @ [(Direct, GetRecentBlockhash)]"
  by (simp add: getSolanaGasFee_def Let_def split: sum.splits)

lemma getSolanaGasFee_replies:
  "replies (snd (getSolanaGasFee env s)) = replies s"
  by (simp add: getSolanaGasFee_def Let_def split: sum.splits)

lemma getTokenBalance_replies:
  "replies (snd (getTokenBalance env address tokenAddress s)) = replies s"
  by (simp add: getTokenBalance_def getTokenBalance_try_def Let_def split: sum.splits)

lemma getTokenBalance_Inr_calls:
  "getTokenBalance env address tokenAddress s = (Inr v, s1) \<Longrightarrow>
     \<exists>publicKey mint. newPublicKey env address = Inr publicKey \<and>
        newPublicKey env tokenAddress = Inr mint \<and>
        calls s1 = calls s @ [(Direct, GetTokenAccountsByOwner publicKey mint)]"
  by (auto simp add: getTokenBalance_def getTokenBalance_try_def Let_def split: sum.splits)

lemma getTokenBalance_malformed_address:
  "newPublicKey env address = Inl error \<Longrightarrow>
     getTokenBalance env address tokenAddress s =
       (Inl (Error ''Failed to fetch token balance.'' None),
        logger_error (''Error fetching token balance: '' @ message error) s)"
  by (simp add: getTokenBalance_def getTokenBalance_try_def)

lemma getTokenBalance_malformed_mint:
  "newPublicKey env tokenAddress = Inl error \<Longrightarrow>
     fst (getTokenBalance env address tokenAddress s) =
       Inl (Error ''Failed to fetch token balance.'' None) \<and>
     calls (snd (getTokenBalance env address tokenAddress s)) = calls s"
  by (simp add: getTokenBalance_def getTokenBalance_try_def Let_def split: sum.splits)

lemma analyzeToken_try_replies:
  "replies (snd (analyzeToken_try env address tokenAddress s)) = replies s"
proof -
  obtain r1 s1 where a1: "getTokenInfoFromSolscan env tokenAddress s = (r1, s1)"
    by (cases "getTokenInfoFromSolscan env tokenAddress s")
  obtain r2 s2 where a2: "getTokenBalance env address tokenAddress s1 = (r2, s2)"
    by (cases "getTokenBalance env address tokenAddress s1")
  obtain r3 s3 where a3: "getCryptoPrices env s2 = (r3, s3)"
    by (cases "getCryptoPrices env s2")
  obtain r4 s4 where a4: "getSolanaGasFee env s3 = (r4, s4)"
    by (cases "getSolanaGasFee env s3")
  have b1: "replies s1 = replies s"
    using getTokenInfoFromSolscan_replies [of env tokenAddress s] a1 by simp
  have b2: "replies s2 = replies s1"
    using getTokenBalance_replies [of env address tokenAddress s1] a2 by simp
  have b3: "replies s3 = replies s2"
    using getCryptoPrices_replies [of env s2] a3 by simp
  have b4: "replies s4 = replies s3"
    using getSolanaGasFee_replies [of env s3] a4 by simp
  show ?thesis
    using a1 a2 a3 a4 b1 b2 b3 b4
    by (simp add: analyzeToken_try_def split: sum.splits)
qed

lemma analyzeToken_replies:
  "replies (snd (analyzeToken env address tokenAddress s)) = replies s"
  using analyzeToken_try_replies [of env address tokenAddress s]
  by (cases "analyzeToken_try env address tokenAddress s")
    (auto simp add: analyzeToken_def split: sum.splits)

lemma analyzeToken_malformed_wallet:
  assumes "newPublicKey env address = Inl error"
  shows "fst (analyzeToken env address tokenAddress s) = Inl (Error ''Failed to analyze token.'' None) \<and>
         calls (snd (analyzeToken env address tokenAddress s)) =
           calls s @ [(Direct, HttpGet (SOLSCAN_API_URL @ ''/api/v1/tokenInfo/'' @ tokenAddress)
                         [(''Authorization'', ''Bearer '' @ SOLSCAN_API_KEY env)] [])]"
proof (cases "getTokenInfoFromSolscan env tokenAddress s")
  case (Pair r s1)
  have c: "calls s1 = calls s @ [(Direct, HttpGet (SOLSCAN_API_URL @ ''/api/v1/tokenInfo/'' @ tokenAddress)
                         [(''Authorization'', ''Bearer '' @ SOLSCAN_API_KEY env)] [])]"
    using getTokenInfoFromSolscan_calls [of env tokenAddress s] Pair by simp
  show ?thesis
  proof (cases r)
    case (Inl e)
    with Pair c show ?thesis
      by (simp add: analyzeToken_def analyzeToken_try_def)
  next
    case (Inr info)
    with Pair c getTokenBalance_malformed_address [OF assms, of tokenAddress s1] show ?thesis
      by (simp add: analyzeToken_def analyzeToken_try_def)
  qed
qed

lemma analyzeToken_malformed_token:
  assumes "newPublicKey env tokenAddress = Inl error"
  shows "fst (analyzeToken env address tokenAddress s) = Inl (Error ''Failed to analyze token.'' None) \<and>
         calls (snd (analyzeToken env address tokenAddress s)) =
           calls s @ [(Direct, HttpGet (SOLSCAN_API_URL @ ''/api/v1/tokenInfo/'' @ tokenAddress)
                         [(''Authorization'', ''Bearer '' @ SOLSCAN_API_KEY env)] [])]"
proof (cases "getTokenInfoFromSolscan env tokenAddress s")
  case (Pair r s1)
  have c: "calls s1 = calls s @ [(Direct, HttpGet (SOLSCAN_API_URL @ ''/api/v1/tokenInfo/'' @ tokenAddress)
                         [(''Authorization'', ''Bearer '' @ SOLSCAN_API_KEY env)] [])]"
    using getTokenInfoFromSolscan_calls [of env tokenAddress s] Pair by simp
  show ?thesis
  proof (cases r)
    case (Inl e)
    with Pair c show ?thesis
      by (simp add: analyzeToken_def analyzeToken_try_def)
  next
    case (Inr info)
    obtain r2 s2 where b: "getTokenBalance env address tokenAddress s1 = (r2, s2)"
      by (cases "getTokenBalance env address tokenAddress s1")
    with getTokenBalance_malformed_mint [OF assms, of address s1]
    have "r2 = Inl (Error ''Failed to fetch token balance.'' None)" and "calls s2 = calls s1"
      by simp_all
    with Inr Pair b c show ?thesis
      by (simp add: analyzeToken_def analyzeToken_try_def)
  qed
qed

lemma analyzeToken_Inr:
  assumes "analyzeToken env address tokenAddress s = (Inr a, s')"
  shows "\<exists>data publicKey mint.
           axios_get_markets env (COINGECKO_API_URL @ ''/coins/markets'') markets_params = Inr data \<and>
           prices a = prices_of data \<and>
           newPublicKey env address = Inr publicKey \<and>
           newPublicKey env tokenAddress = Inr mint \<and>
           replies s' = replies s \<and>
           calls s' = calls s @
             [(Direct, HttpGet (SOLSCAN_API_URL @ ''/api/v1/tokenInfo/'' @ tokenAddress)
                         [(''Authorization'', ''Bearer '' @ SOLSCAN_API_KEY env)] []),
              (Direct, GetTokenAccountsByOwner publicKey mint),
              (Direct, HttpGet (COINGECKO_API_URL @ ''/coins/markets'') [] markets_params),
              (Direct, GetRecentBlockhash)]"
proof -
  from assms obtain info s1 bal s2 quotes s3 fee where
    a1: "getTokenInfoFromSolscan env tokenAddress s = (Inr info, s1)" and
    a2: "getTokenBalance env address tokenAddress s1 = (Inr bal, s2)" and
    a3: "getCryptoPrices env s2 = (Inr quotes, s3)" and
    a4: "getSolanaGasFee env s3 = (Inr fee, s')" and
    a: "a = \<lparr>tokenInfo = info, balance = bal, prices = quotes, gasFee = fee\<rparr>"
    by (auto simp add: analyzeToken_def analyzeToken_try_def split: prod.splits sum.splits)
  from getCryptoPrices_Inr [OF a3] obtain data where
    d: "axios_get_markets env (COINGECKO_API_URL @ ''/coins/markets'') markets_params = Inr data"
    and q: "quotes = prices_of data"
    by blast
  from getTokenBalance_Inr_calls [OF a2] obtain publicKey mint where
    k1: "newPublicKey env address = Inr publicKey" and
    k2: "newPublicKey env tokenAddress = Inr mint" and
    c2: "calls s2 = calls s1 @ [(Direct, GetTokenAccountsByOwner publicKey mint)]"
    by blast
  have c1: "calls s1 = calls s @
      [(Direct, HttpGet (SOLSCAN_API_URL @ ''/api/v1/tokenInfo/'' @ tokenAddress)
                         [(''Authorization'', ''Bearer '' @ SOLSCAN_API_KEY env)] [])]"
    using getTokenInfoFromSolscan_calls [of env tokenAddress s] a1 by simp
  have c3: "calls s3 = calls s2 @
      [(Direct, HttpGet (COINGECKO_API_URL @ ''/coins/markets'') [] markets_params)]"
    using getCryptoPrices_calls [of env s2] a3 by simp
  have c4: "calls s' = calls s3 @ [(Direct, GetRecentBlockhash)]"
    using getSolanaGasFee_calls [of env s3] a4 by simp
  have r: "replies s' = replies s"
    using analyzeToken_replies [of env address tokenAddress s] assms by simp
  show ?thesis
    using d q k1 k2 c1 c2 c3 c4 r a by simp
qed

lemma getTokenBalance_calls_grow:
  "\<exists>more. calls (snd (getTokenBalance env address tokenAddress s)) = calls s @ more"
  by (simp add: getTokenBalance_def getTokenBalance_try_def Let_def split: sum.splits)

lemma analyzeToken_try_first_call:
  "\<exists>more. calls (snd (analyzeToken_try env address tokenAddress s)) =
     calls s @ (Direct, HttpGet (SOLSCAN_API_URL @ ''/api/v1/tokenInfo/'' @ tokenAddress)
                  [(''Authorization'', ''Bearer '' @ SOLSCAN_API_KEY env)] []) # more"
proof -
  obtain r1 s1 where a1: "getTokenInfoFromSolscan env tokenAddress s = (r1, s1)"
    by (cases "getTokenInfoFromSolscan env tokenAddress s")
  obtain r2 s2 where a2: "getTokenBalance env address tokenAddress s1 = (r2, s2)"
    by (cases "getTokenBalance env address tokenAddress s1")
  obtain r3 s3 where a3: "getCryptoPrices env s2 = (r3, s3)"
    by (cases "getCryptoPrices env s2")
  obtain r4 s4 where a4: "getSolanaGasFee env s3 = (r4, s4)"
    by (cases "getSolanaGasFee env s3")
  have c1: "calls s1 = calls s @
      [(Direct, HttpGet (SOLSCAN_API_URL @ ''/api/v1/tokenInfo/'' @ tokenAddress)
                         [(''Authorization'', ''Bearer '' @ SOLSCAN_API_KEY env)] [])]"
    using getTokenInfoFromSolscan_calls [of env tokenAddress s] a1 by simp
  obtain more where c2: "calls s2 = calls s1 @ more"
    using getTokenBalance_calls_grow [of env address tokenAddress s1] a2 by auto
  have c3: "calls s3 = calls s2 @
      [(Direct, HttpGet (COINGECKO_API_URL @ ''/coins/markets'') [] markets_params)]"
    using getCryptoPrices_calls [of env s2] a3 by simp
  have c4: "calls s4 = calls s3 @ [(Direct, GetRecentBlockhash)]"
    using getSolanaGasFee_calls [of env s3] a4 by simp
  show ?thesis
    using a1 a2 a3 a4 c1 c2 c3 c4
    by (simp add: analyzeToken_try_def split: sum.splits)
qed

lemma analyzeToken_first_call:
  "\<exists>more. calls (snd (analyzeToken env address tokenAddress s)) =
     calls s @ (Direct, HttpGet (SOLSCAN_API_URL @ ''/api/v1/tokenInfo/'' @ tokenAddress)
                  [(''Authorization'', ''Bearer '' @ SOLSCAN_API_KEY env)] []) # more"
  using analyzeToken_try_first_call [of env address tokenAddress s]
  by (cases "analyzeToken_try env address tokenAddress s")
    (auto simp add: analyzeToken_def split: sum.splits)

lemma check_try_first_call:
  "\<exists>more. calls (snd (check_try env address tokenAddress s)) =
     calls s @ (Direct, HttpGet (SOLSCAN_API_URL @ ''/api/v1/tokenInfo/'' @ tokenAddress)
                  [(''Authorization'', ''Bearer '' @ SOLSCAN_API_KEY env)] []) # more"
proof -
  let ?s0 = "ctx_reply env [Lit (magnifier @ '' Analyzing the token. Please wait...'')] s"
  obtain r s1 where an: "analyzeToken env address tokenAddress ?s0 = (r, s1)"
    by (cases "analyzeToken env address tokenAddress ?s0")
  with analyzeToken_first_call [of env address tokenAddress ?s0] show ?thesis
    by (auto simp add: check_try_def Let_def split: sum.splits)
qed

section \<open>Splitting the message text\<close>

lemma split_space_not_Nil [simp]: "split_space msg \<noteq> []"
  by (induction msg) (auto split: list.splits)

lemma length_split_space: "length (split_space msg) = Suc (count_list msg (CHR '' ''))"
  by (induction msg) (auto split: list.splits)

lemma split_space_no_space:
  "CHR '' '' \<notin> set w \<Longrightarrow> split_space (w @ CHR '' '' # rest) = w # split_space rest"
  by (induction w) (auto split: list.splits)

lemma split_space_word: "CHR '' '' \<notin> set w \<Longrightarrow> split_space w = [w]"
  by (induction w) (auto split: list.splits)

lemma length_command_args: "length (command_args msg) = count_list msg (CHR '' '')"
  by (simp add: command_args_def length_split_space)

lemma command_args_double_space:
  assumes "CHR '' '' \<notin> set cmd" and "CHR '' '' \<notin> set arg"
  shows "command_args (cmd @ ''  '' @ arg) = [[], arg]"
proof -
  have "split_space (cmd @ CHR '' '' # (CHR '' '' # arg)) = cmd # split_space (CHR '' '' # arg)"
    using assms(1) by (rule split_space_no_space)
  moreover have "split_space (CHR '' '' # arg) = [] # split_space arg"
    by simp
  ultimately show ?thesis
    using assms(2) by (simp add: command_args_def split_space_word)
qed

section \<open>The price object\<close>

lemma find_append_case:
  "find P (xs @ ys) = (case find P xs of None \<Rightarrow> find P ys | Some x \<Rightarrow> Some x)"
  by (induction xs) auto

lemma fold_prices_lookup:
  "fold (\<lambda>coin m. m(coin_id coin \<mapsto> current_price coin)) data m0 k =
     (case find (\<lambda>c. coin_id c = k) (rev data) of
        None \<Rightarrow> m0 k
      | Some c \<Rightarrow> Some (current_price c))"
  by (induction data arbitrary: m0) (auto simp add: find_append_case split: option.splits)

lemma get_prop_prices_of:
  "get_prop (prices_of data) k =
     (case find (\<lambda>c. coin_id c = k) (rev data) of
        None \<Rightarrow> Undefined
      | Some c \<Rightarrow> current_price c)"
  by (simp add: get_prop_def prices_of_def fold_prices_lookup split: option.splits)

section \<open>Handlers and the sending of replies\<close>

lemma unhandled_logger_error [simp]: "unhandled (logger_error msg s) = unhandled s"
  by (simp add: logger_error_def)

lemma unhandled_direct_call [simp]: "unhandled (direct_call r s) = unhandled s"
  by (simp add: direct_call_def)

lemma calls_return_ctx_reply [simp]: "calls (snd (return_ctx_reply env text s)) = calls s"
  by (simp add: return_ctx_reply_def)

lemma replies_return_ctx_reply [simp]:
  "replies (snd (return_ctx_reply env text s)) = replies s @ [text]"
  by (simp add: return_ctx_reply_def)

lemma unhandled_return_ctx_reply [simp]:
  "unhandled (snd (return_ctx_reply env text s)) = unhandled s"
  by (simp add: return_ctx_reply_def)

lemma unhandled_ctx_reply:
  "e \<in> set (unhandled (ctx_reply env text s)) \<Longrightarrow>
     e \<in> set (unhandled s) \<or> (\<exists>text. sendMessage env text = Inl e)"
  by (auto simp add: ctx_reply_def split: sum.splits)

lemma unhandled_ctx_reply_sent:
  "\<forall>text. sendMessage env text = Inr () \<Longrightarrow> unhandled (ctx_reply env text s) = unhandled s"
  by (simp add: ctx_reply_def)

lemma getTokenInfoFromSolscan_unhandled:
  "unhandled (snd (getTokenInfoFromSolscan env tokenAddress s)) = unhandled s"
  by (simp add: getTokenInfoFromSolscan_def Let_def split: sum.splits)

lemma getTokenBalance_unhandled:
  "unhandled (snd (getTokenBalance env address tokenAddress s)) = unhandled s"
  by (simp add: getTokenBalance_def getTokenBalance_try_def Let_def split: sum.splits)

lemma getCryptoPrices_unhandled:
  "unhandled (snd (getCryptoPrices env s)) = unhandled s"
  by (simp add: getCryptoPrices_def Let_def split: sum.splits)

lemma getSolanaGasFee_unhandled:
  "unhandled (snd (getSolanaGasFee env s)) = unhandled s"
  by (simp add: getSolanaGasFee_def Let_def split: sum.splits)

lemma analyzeToken_try_unhandled:
  "unhandled (snd (analyzeToken_try env address tokenAddress s)) = unhandled s"
proof -
  obtain r1 s1 where a1: "getTokenInfoFromSolscan env tokenAddress s = (r1, s1)"
    by (cases "getTokenInfoFromSolscan env tokenAddress s")
  obtain r2 s2 where a2: "getTokenBalance env address tokenAddress s1 = (r2, s2)"
    by (cases "getTokenBalance env address tokenAddress s1")
  obtain r3 s3 where a3: "getCryptoPrices env s2 = (r3, s3)"
    by (cases "getCryptoPrices env s2")
  obtain r4 s4 where a4: "getSolanaGasFee env s3 = (r4, s4)"
    by (cases "getSolanaGasFee env s3")
  have b1: "unhandled s1 = unhandled s"
    using getTokenInfoFromSolscan_unhandled [of env tokenAddress s] a1 by simp
  have b2: "unhandled s2 = unhandled s1"
    using getTokenBalance_unhandled [of env address tokenAddress s1] a2 by simp
  have b3: "unhandled s3 = unhandled s2"
    using getCryptoPrices_unhandled [of env s2] a3 by simp
  have b4: "unhandled s4 = unhandled s3"
    using getSolanaGasFee_unhandled [of env s3] a4 by simp
  show ?thesis
    using a1 a2 a3 a4 b1 b2 b3 b4
    by (simp add: analyzeToken_try_def split: sum.splits)
qed

lemma analyzeToken_unhandled:
  "unhandled (snd (analyzeToken env address tokenAddress s)) = unhandled s"
  using analyzeToken_try_unhandled [of env address tokenAddress s]
  by (cases "analyzeToken_try env address tokenAddress s")
    (auto simp add: analyzeToken_def split: sum.splits)

text \<open>The \<^verbatim>\<open>try\<close> blocks of the handlers: what they hand to \<^verbatim>\<open>ctx.reply\<close> and which
  rejections they leave.\<close>

lemma check_try_replies:
  "Suc (length (replies s)) \<le> length (replies (snd (check_try env address tokenAddress s)))"
proof -
  let ?s0 = "ctx_reply env [Lit (magnifier @ '' Analyzing the token. Please wait...'')] s"
  obtain r s1 where an: "analyzeToken env address tokenAddress ?s0 = (r, s1)"
    by (cases "analyzeToken env address tokenAddress ?s0")
  with analyzeToken_replies [of env address tokenAddress ?s0] show ?thesis
    by (auto simp add: check_try_def Let_def split: sum.splits)
qed

lemma check_try_unhandled:
  assumes "e \<in> set (unhandled (snd (check_try env address tokenAddress s)))"
  shows "e \<in> set (unhandled s) \<or> (\<exists>text. sendMessage env text = Inl e)"
proof -
  let ?s0 = "ctx_reply env [Lit (magnifier @ '' Analyzing the token. Please wait...'')] s"
  obtain r s1 where an: "analyzeToken env address tokenAddress ?s0 = (r, s1)"
    by (cases "analyzeToken env address tokenAddress ?s0")
  have u1: "unhandled s1 = unhandled ?s0"
    using analyzeToken_unhandled [of env address tokenAddress ?s0] an by simp
  have "e \<in> set (unhandled s1) \<or> (\<exists>text. sendMessage env text = Inl e)"
    using assms an by (auto simp add: check_try_def Let_def split: sum.splits
        dest: unhandled_ctx_reply)
  with u1 show ?thesis
    by (auto dest: unhandled_ctx_reply)
qed

lemma balance_try_replies:
  "length (replies s) \<le> length (replies (snd (balance_try env address s)))"
  by (simp add: balance_try_def Let_def split: sum.splits)

lemma balance_try_Inr_replies:
  "balance_try env address s = (Inr u, s1) \<Longrightarrow> Suc (length (replies s)) \<le> length (replies s1)"
  by (auto simp add: balance_try_def Let_def split: sum.splits)

lemma balance_try_unhandled:
  "e \<in> set (unhandled (snd (balance_try env address s))) \<Longrightarrow>
     e \<in> set (unhandled s) \<or> (\<exists>text. sendMessage env text = Inl e)"
  by (auto simp add: balance_try_def Let_def split: sum.splits dest: unhandled_ctx_reply)

text \<open>A handler's promise is rejected only by a rejected send (the usage replies), and
  a rejection is left unhandled only by a rejected send.\<close>

lemma on_command_rejected:
  assumes "fst (on_command env c msg s) = Inl e"
  shows "\<exists>text. sendMessage env text = Inl e"
proof (cases c)
  case Check
  obtain r s1 where h: "check_try env (command_args msg ! 1) (command_args msg ! 0) s = (r, s1)"
    by (cases "check_try env (command_args msg ! 1) (command_args msg ! 0) s")
  with assms Check show ?thesis
    by (auto simp add: on_command_def check_command_def return_ctx_reply_def Let_def
        split: if_splits sum.splits)
next
  case Balance
  obtain r s1 where h: "balance_try env (command_args msg ! 0) s = (r, s1)"
    by (cases "balance_try env (command_args msg ! 0) s")
  with assms Balance show ?thesis
    by (auto simp add: on_command_def balance_command_def return_ctx_reply_def Let_def
        split: if_splits sum.splits)
next
  case Prices
  with assms show ?thesis
    by (cases "getCryptoPrices env s")
      (auto simp add: on_command_def prices_command_def split: sum.splits)
next
  case Gas
  with assms show ?thesis
    by (cases "getSolanaGasFee env s")
      (auto simp add: on_command_def gas_command_def split: sum.splits)
next
  case Help
  with assms show ?thesis
    by (simp add: on_command_def help_command_def)
qed

lemma on_command_unhandled:
  assumes "e \<in> set (unhandled (snd (on_command env c msg s)))"
  shows "e \<in> set (unhandled s) \<or> (\<exists>text. sendMessage env text = Inl e)"
proof (cases c)
  case Check
  obtain r s1 where h: "check_try env (command_args msg ! 1) (command_args msg ! 0) s = (r, s1)"
    by (cases "check_try env (command_args msg ! 1) (command_args msg ! 0) s")
  have "e \<in> set (unhandled s1) \<Longrightarrow> ?thesis"
    using check_try_unhandled [of e env "command_args msg ! 1" "command_args msg ! 0" s] h
    by simp
  with assms Check h show ?thesis
    by (auto simp add: on_command_def check_command_def Let_def
        split: if_splits sum.splits dest: unhandled_ctx_reply)
next
  case Balance
  obtain r s1 where h: "balance_try env (command_args msg ! 0) s = (r, s1)"
    by (cases "balance_try env (command_args msg ! 0) s")
  have "e \<in> set (unhandled s1) \<Longrightarrow> ?thesis"
    using balance_try_unhandled [of e env "command_args msg ! 0" s] h
    by simp
  with assms Balance h show ?thesis
    by (auto simp add: on_command_def balance_command_def Let_def
        split: if_splits sum.splits dest: unhandled_ctx_reply)
next
  case Prices
  obtain r s1 where h: "getCryptoPrices env s = (r, s1)"
    by (cases "getCryptoPrices env s")
  have "unhandled s1 = unhandled s"
    using getCryptoPrices_unhandled [of env s] h by simp
  with assms Prices h show ?thesis
    by (auto simp add: on_command_def prices_command_def split: sum.splits
        dest: unhandled_ctx_reply)
next
  case Gas
  obtain r s1 where h: "getSolanaGasFee env s = (r, s1)"
    by (cases "getSolanaGasFee env s")
  have "unhandled s1 = unhandled s"
    using getSolanaGasFee_unhandled [of env s] h by simp
  with assms Gas h show ?thesis
    by (auto simp add: on_command_def gas_command_def split: sum.splits
        dest: unhandled_ctx_reply)
next
  case Help
  with assms show ?thesis
    by (auto simp add: on_command_def help_command_def dest: unhandled_ctx_reply)
qed

text \<open>When every send succeeds, a handler's promise is fulfilled and no rejection is left,
  whatever the services answer.\<close>

lemma on_command_sent:
  assumes "\<forall>text. sendMessage env text = Inr ()"
  shows "fst (on_command env c msg s) = Inr () \<and>
         unhandled (snd (on_command env c msg s)) = unhandled s"
proof -
  have r: "fst (on_command env c msg s) = Inr ()"
  proof (cases "fst (on_command env c msg s)")
    case (Inl e)
    from on_command_rejected [OF Inl] assms show ?thesis
      by simp
  next
    case (Inr u)
    then show ?thesis by simp
  qed
  have sub: "set (unhandled (snd (on_command env c msg s))) \<subseteq> set (unhandled s)"
    using on_command_unhandled [of _ env c msg s] assms by auto
  have u: "unhandled (snd (on_command env c msg s)) = unhandled s"
  proof (cases c)
    case Check
    let ?s0 = "ctx_reply env [Lit (magnifier @ '' Analyzing the token. Please wait...'')] s"
    obtain ra s1 where an:
      "analyzeToken env (command_args msg ! 1) (command_args msg ! 0) ?s0 = (ra, s1)"
      by (cases "analyzeToken env (command_args msg ! 1) (command_args msg ! 0) ?s0")
    have "unhandled s1 = unhandled ?s0"
      using analyzeToken_unhandled [of env "command_args msg ! 1" "command_args msg ! 0" ?s0] an
      by simp
    then have "unhandled s1 = unhandled s"
      using assms by (simp add: unhandled_ctx_reply_sent)
    with Check an assms show ?thesis
      by (auto simp add: on_command_def check_command_def check_try_def Let_def
          unhandled_ctx_reply_sent split: sum.splits)
  next
    case Balance
    with assms show ?thesis
      by (auto simp add: on_command_def balance_command_def balance_try_def Let_def
          unhandled_ctx_reply_sent split: sum.splits)
  next
    case Prices
    obtain rp s1 where h: "getCryptoPrices env s = (rp, s1)"
      by (cases "getCryptoPrices env s")
    have "unhandled s1 = unhandled s"
      using getCryptoPrices_unhandled [of env s] h by simp
    with Prices h assms show ?thesis
      by (auto simp add: on_command_def prices_command_def unhandled_ctx_reply_sent
          split: sum.splits)
  next
    case Gas
    obtain rg s1 where h: "getSolanaGasFee env s = (rg, s1)"
      by (cases "getSolanaGasFee env s")
    have "unhandled s1 = unhandled s"
      using getSolanaGasFee_unhandled [of env s] h by simp
    with Gas h assms show ?thesis
      by (auto simp add: on_command_def gas_command_def unhandled_ctx_reply_sent
          split: sum.splits)
  next
    case Help
    with assms show ?thesis
      by (simp add: on_command_def help_command_def unhandled_ctx_reply_sent)
  qed
  from r u show ?thesis
    by simp
qed

lemma on_command_replies:
  "Suc (length (replies s)) \<le> length (replies (snd (on_command env c msg s)))"
proof (cases c)
  case Check
  obtain r s1 where h: "check_try env (command_args msg ! 1) (command_args msg ! 0) s = (r, s1)"
    by (cases "check_try env (command_args msg ! 1) (command_args msg ! 0) s")
  with check_try_replies [of s env "command_args msg ! 1" "command_args msg ! 0"] Check
  show ?thesis
    by (auto simp add: on_command_def check_command_def Let_def split: sum.splits)
next
  case Balance
  obtain r s1 where h: "balance_try env (command_args msg ! 0) s = (r, s1)"
    by (cases "balance_try env (command_args msg ! 0) s")
  with balance_try_replies [of s env "command_args msg ! 0"] balance_try_Inr_replies [of env _ s]
    Balance
  show ?thesis
    by (auto simp add: on_command_def balance_command_def Let_def split: sum.splits)
next
  case Prices
  obtain r s1 where h: "getCryptoPrices env s = (r, s1)"
    by (cases "getCryptoPrices env s")
  with getCryptoPrices_replies [of env s] Prices show ?thesis
    by (auto simp add: on_command_def prices_command_def split: sum.splits)
next
  case Gas
  obtain r s1 where h: "getSolanaGasFee env s = (r, s1)"
    by (cases "getSolanaGasFee env s")
  with getSolanaGasFee_replies [of env s] Gas show ?thesis
    by (auto simp add: on_command_def gas_command_def split: sum.splits)
next
  case Help
  then show ?thesis
    by (simp add: on_command_def help_command_def)
qed

text \<open>Serving a message whose sends succeed: the next messages are served from the state
  its handler left.\<close>

lemma serve_step:
  assumes "\<forall>text. sendMessage env text = Inr ()" and "unhandled s = []"
  shows "serve ((env, c, msg) # rest) s = serve rest (snd (on_command env c msg s))"
proof -
  obtain r s1 where h: "on_command env c msg s = (r, s1)"
    by (cases "on_command env c msg s")
  from on_command_sent [OF assms(1), of c msg s] h assms(2)
  have "r = Inr ()" and "unhandled s1 = []"
    by simp_all
  with h show ?thesis
    by simp
qed

lemma serve_sent:
  assumes "\<forall>x\<in>set run. \<forall>text. sendMessage (fst x) text = Inr ()" and "unhandled s = []"
  shows "fst (serve run s) = Inr () \<and>
         unhandled (snd (serve run s)) = [] \<and>
         length (replies s) + length run \<le> length (replies (snd (serve run s))) \<and>
         serve (run @ rest) s = serve rest (snd (serve run s))"
  using assms
proof (induction run arbitrary: s)
  case Nil
  then show ?case by simp
next
  case (Cons x run)
  obtain env c msg where x: "x = (env, c, msg)"
    by (cases x)
  let ?s1 = "snd (on_command env c msg s)"
  have ok: "\<forall>text. sendMessage env text = Inr ()"
    using Cons.prems(1) x by simp
  have u1: "unhandled ?s1 = []"
    using on_command_sent [OF ok, of c msg s] Cons.prems(2) by simp
  have r1: "Suc (length (replies s)) \<le> length (replies ?s1)"
    by (rule on_command_replies)
  have st: "serve (x # run) s = serve run ?s1"
    using serve_step [OF ok Cons.prems(2)] x by simp
  have st': "serve ((x # run) @ rest) s = serve (run @ rest) ?s1"
    using serve_step [OF ok Cons.prems(2), of c msg "run @ rest"] x by simp
  have ih: "fst (serve run ?s1) = Inr () \<and>
         unhandled (snd (serve run ?s1)) = [] \<and>
         length (replies ?s1) + length run \<le> length (replies (snd (serve run ?s1))) \<and>
         serve (run @ rest) ?s1 = serve rest (snd (serve run ?s1))"
    using Cons.IH [of ?s1] Cons.prems(1) u1 by simp
  from ih r1 st st' show ?case
    by simp
qed

text \<open>The reply of each handler when a call it makes throws.\<close>

lemma check_command_error_reply:
  assumes "\<not> length (command_args msg) < 2"
    and "fst (analyzeToken env (command_args msg ! 1) (command_args msg ! 0)
           (ctx_reply env [Lit (magnifier @ '' Analyzing the token. Please wait...'')] s)) = Inl e"
  shows "replies (snd (check_command env msg s)) =
           replies s @ [[Lit (magnifier @ '' Analyzing the token. Please wait...'')], error_reply e]"
proof -
  let ?s0 = "ctx_reply env [Lit (magnifier @ '' Analyzing the token. Please wait...'')] s"
  obtain r s1 where an: "analyzeToken env (command_args msg ! 1) (command_args msg ! 0) ?s0 = (r, s1)"
    by (cases "analyzeToken env (command_args msg ! 1) (command_args msg ! 0) ?s0")
  with assms(2) have r: "r = Inl e"
    by simp
  have "replies s1 = replies ?s0"
    using analyzeToken_replies [of env "command_args msg ! 1" "command_args msg ! 0" ?s0] an
    by simp
  with assms(1) an r show ?thesis
    by (simp add: check_command_def check_try_def Let_def)
qed

lemma balance_command_error_reply:
  assumes "\<not> length (command_args msg) < 1"
    and "newPublicKey env (command_args msg ! 0) = Inl e \<or>
         (\<exists>publicKey. newPublicKey env (command_args msg ! 0) = Inr publicKey \<and>
            getBalance env publicKey = Inl e)"
  shows "replies (snd (balance_command env msg s)) = replies s @ [error_reply e]"
  using assms
  by (auto simp add: balance_command_def balance_try_def Let_def)

lemma prices_command_error_reply:
  assumes "fst (getCryptoPrices env s) = Inl e"
  shows "replies (snd (prices_command env s)) = replies s @ [error_reply e]"
  using assms getCryptoPrices_replies [of env s]
  by (cases "getCryptoPrices env s") (auto simp add: prices_command_def)

lemma gas_command_error_reply:
  assumes "fst (getSolanaGasFee env s) = Inl e"
  shows "replies (snd (gas_command env s)) = replies s @ [error_reply e]"
  using assms getSolanaGasFee_replies [of env s]
  by (cases "getSolanaGasFee env s") (auto simp add: gas_command_def)

section \<open>Launch\<close>

text \<open>A rejected launch leaves one ERROR line in the log, and the line
  \<^verbatim>\<open>Bot is running\<close> is not written.\<close>

lemma bot_launch_failure_logged:
  "launch env = Inl error \<Longrightarrow>
     logged (bot_launch env s) = logged s @ [(ERROR, ''Bot launch failed: '' @ message error)]"
  by (simp add: bot_launch_def logger_error_def)

section \<open>Routes of the outbound calls\<close>

lemma routes_trans:
  "A \<subseteq> insert Direct B \<Longrightarrow> B \<subseteq> insert Direct C \<Longrightarrow> A \<subseteq> insert Direct C"
  by blast

lemma getTokenBalance_calls_cases:
  "calls (snd (getTokenBalance env address tokenAddress s)) = calls s \<or>
   (\<exists>publicKey mint. calls (snd (getTokenBalance env address tokenAddress s)) =
      calls s @ [(Direct, GetTokenAccountsByOwner publicKey mint)])"
  by (simp add: getTokenBalance_def getTokenBalance_try_def Let_def split: sum.splits)

lemma getTokenBalance_routes:
  "fst ` set (calls (snd (getTokenBalance env address tokenAddress s))) \<subseteq>
     insert Direct (fst ` set (calls s))"
  using getTokenBalance_calls_cases [of env address tokenAddress s]
  by (elim disjE exE) (simp_all add: subset_insertI)

lemma analyzeToken_try_routes:
  "fst ` set (calls (snd (analyzeToken_try env address tokenAddress s))) \<subseteq>
     insert Direct (fst ` set (calls s))"
proof -
  obtain r1 s1 where a1: "getTokenInfoFromSolscan env tokenAddress s = (r1, s1)"
    by (cases "getTokenInfoFromSolscan env tokenAddress s")
  obtain r2 s2 where a2: "getTokenBalance env address tokenAddress s1 = (r2, s2)"
    by (cases "getTokenBalance env address tokenAddress s1")
  obtain r3 s3 where a3: "getCryptoPrices env s2 = (r3, s3)"
    by (cases "getCryptoPrices env s2")
  obtain r4 s4 where a4: "getSolanaGasFee env s3 = (r4, s4)"
    by (cases "getSolanaGasFee env s3")
  have c1: "fst ` set (calls s1) \<subseteq> insert Direct (fst ` set (calls s))"
    using getTokenInfoFromSolscan_calls [of env tokenAddress s] a1 by simp
  have "fst ` set (calls s2) \<subseteq> insert Direct (fst ` set (calls s1))"
    using getTokenBalance_routes [of env address tokenAddress s1] a2 by simp
  then have c2: "fst ` set (calls s2) \<subseteq> insert Direct (fst ` set (calls s))"
    using c1 by (rule routes_trans)
  have "fst ` set (calls s3) \<subseteq> insert Direct (fst ` set (calls s2))"
    using getCryptoPrices_calls [of env s2] a3 by simp
  then have c3: "fst ` set (calls s3) \<subseteq> insert Direct (fst ` set (calls s))"
    using c2 by (rule routes_trans)
  have "fst ` set (calls s4) \<subseteq> insert Direct (fst ` set (calls s3))"
    using getSolanaGasFee_calls [of env s3] a4 by simp
  then have c4: "fst ` set (calls s4) \<subseteq> insert Direct (fst ` set (calls s))"
    using c3 by (rule routes_trans)
  show ?thesis
  proof (cases r1)
    case Inl
    with a1 c1 show ?thesis by (simp add: analyzeToken_try_def)
  next
    case i1: Inr
    show ?thesis
    proof (cases r2)
      case Inl
      with i1 a1 a2 c2 show ?thesis by (simp add: analyzeToken_try_def)
    next
      case i2: Inr
      show ?thesis
      proof (cases r3)
        case Inl
        with i1 i2 a1 a2 a3 c3 show ?thesis by (simp add: analyzeToken_try_def)
      next
        case i3: Inr
        with i1 i2 a1 a2 a3 a4 c4 show ?thesis
          by (cases r4) (simp_all add: analyzeToken_try_def)
      qed
    qed
  qed
qed

lemma analyzeToken_routes:
  "fst ` set (calls (snd (analyzeToken env address tokenAddress s))) \<subseteq>
     insert Direct (fst ` set (calls s))"
  using analyzeToken_try_routes [of env address tokenAddress s]
  by (cases "analyzeToken_try env address tokenAddress s")
    (auto simp add: analyzeToken_def split: sum.splits)

lemma on_command_routes:
  "fst ` set (calls (snd (on_command env c msg s))) \<subseteq> insert Direct (fst ` set (calls s))"
proof (cases c)
  case Check
  let ?s0 = "ctx_reply env [Lit (magnifier @ '' Analyzing the token. Please wait...'')] s"
  obtain r s1 where an: "analyzeToken env (command_args msg ! 1) (command_args msg ! 0) ?s0 = (r, s1)"
    by (cases "analyzeToken env (command_args msg ! 1) (command_args msg ! 0) ?s0")
  with analyzeToken_routes [of env "command_args msg ! 1" "command_args msg ! 0" ?s0] Check
  show ?thesis
    by (auto simp add: on_command_def check_command_def check_try_def Let_def split: sum.splits)
next
  case Balance
  then show ?thesis
    by (auto simp add: on_command_def balance_command_def balance_try_def Let_def
        split: sum.splits)
next
  case Prices
  obtain r s1 where h: "getCryptoPrices env s = (r, s1)"
    by (cases "getCryptoPrices env s")
  with getCryptoPrices_calls [of env s] Prices show ?thesis
    by (auto simp add: on_command_def prices_command_def split: sum.splits)
next
  case Gas
  obtain r s1 where h: "getSolanaGasFee env s = (r, s1)"
    by (cases "getSolanaGasFee env s")
  with getSolanaGasFee_calls [of env s] Gas show ?thesis
    by (auto simp add: on_command_def gas_command_def split: sum.splits)
next
  case Help
  then show ?thesis
    by (auto simp add: on_command_def help_command_def)
qed

lemma serve_routes:
  "fst ` set (calls (snd (serve run s))) \<subseteq> insert Direct (fst ` set (calls s))"
proof (induction run arbitrary: s)
  case Nil
  show ?case by auto
next
  case (Cons u run)
  obtain env c msg where u: "u = (env, c, msg)"
    by (cases u)
  obtain r s1 where h: "on_command env c msg s = (r, s1)"
    by (cases "on_command env c msg s")
  from on_command_routes [of env c msg s] h
  have one: "fst ` set (calls s1) \<subseteq> insert Direct (fst ` set (calls s))"
    by simp
  with Cons.IH [of s1] have
    more: "fst ` set (calls (snd (serve run s1))) \<subseteq> insert Direct (fst ` set (calls s))"
    by blast
  show ?case
  proof (cases r)
    case Inl
    with u h one show ?thesis by simp
  next
    case Inr
    with u h one more show ?thesis
      by (cases "unhandled s1") simp_all
  qed
qed

text \<open>Whatever messages the bot serves, starting with no call made, it never issues a call
  through the limiter.\<close>

lemma no_call_goes_through_limiter:
  "(Limited, r) \<notin> set (calls (snd (serve run start)))"
proof
  assume "(Limited, r) \<in> set (calls (snd (serve run start)))"
  then have "Limited \<in> fst ` set (calls (snd (serve run start)))"
    by force
  with serve_routes [of run start] show False
    by (auto simp add: start_def)
qed

section \<open>The rate limiter\<close>

text \<open>
  Claim C1 says every outbound call goes through the rate limiter, so that of calls issued
  together no two start less than 300 ms apart and at most 5 run at once. The source builds
  the limiter with these settings and never hands it a call. Six \<^verbatim>\<open>/prices\<close> commands make six
  price requests, each issued directly by its handler and none through the limiter, one more
  than the limiter would let run at once.
\<close>

theorem six_prices_bypass_limiter:
  "maxConcurrent limiter = 5 \<and> minTime limiter = 300 \<and>
   calls (snd (serve [(stub_env, Prices, ''/prices''), (stub_env, Prices, ''/prices''),
                      (stub_env, Prices, ''/prices''), (stub_env, Prices, ''/prices''),
                      (stub_env, Prices, ''/prices''), (stub_env, Prices, ''/prices'')] start)) =
     [(Direct, HttpGet (COINGECKO_API_URL @ ''/coins/markets'') [] markets_params),
      (Direct, HttpGet (COINGECKO_API_URL @ ''/coins/markets'') [] markets_params),
      (Direct, HttpGet (COINGECKO_API_URL @ ''/coins/markets'') [] markets_params),
      (Direct, HttpGet (COINGECKO_API_URL @ ''/coins/markets'') [] markets_params),
      (Direct, HttpGet (COINGECKO_API_URL @ ''/coins/markets'') [] markets_params),
      (Direct, HttpGet (COINGECKO_API_URL @ ''/coins/markets'') [] markets_params)]"
  by (simp add: limiter_def on_command_def prices_command_def getCryptoPrices_def COINGECKO_API_URL_def
        markets_params_def stub_env_def
      start_def direct_call_def ctx_reply_def Let_def)

section \<open>The analysis is all or nothing\<close>

text \<open>
  Claim C2 says the error of a failed analysis wraps the failing sub-call's cause. When the
  metadata request fails, and likewise when the fee query fails, \<^verbatim>\<open>analyzeToken\<close> throws the
  same \<^verbatim>\<open>Error('Failed to analyze token.')\<close>, which has no cause.
\<close>

theorem analyzeToken_unwrapped_counterexample:
  "fst (getTokenInfoFromSolscan env_metadata_down mint_A start) =
     Inl (Error ''Failed to fetch token info.'' None) \<and>
   fst (analyzeToken env_metadata_down wallet_A mint_A start) =
     Inl (Error ''Failed to analyze token.'' None) \<and>
   cause (Error ''Failed to analyze token.'' None) \<noteq>
     Some (Error ''Failed to fetch token info.'' None) \<and>
   fst (getSolanaGasFee env_fee_down start) =
     Inl (Error ''Failed to get Solana gas fee.'' None) \<and>
   fst (analyzeToken env_fee_down wallet_A mint_A start) =
     Inl (Error ''Failed to analyze token.'' None)"
  by (simp add: analyzeToken_def analyzeToken_try_def getTokenInfoFromSolscan_def
      getTokenBalance_def getTokenBalance_try_def getCryptoPrices_def COINGECKO_API_URL_def
        markets_params_def getSolanaGasFee_def
      uiAmount_def or_zero_def env_metadata_down_def env_fee_down_def stub_env_def
      stub_keys)

text \<open>
  Claim C2, amended. \<^verbatim>\<open>analyzeToken\<close> succeeds exactly when its four sub-calls succeed one
  after the other, each starting in the state the one before left: token metadata, token
  balance, prices, fee; the result then holds the four values. When a sub-call fails, none
  of the later ones runs, no result is returned, and the one error thrown is the fixed
  \<^verbatim>\<open>Error('Failed to analyze token.')\<close>; it does not carry the cause, whose message is only
  logged. A successful analysis has made exactly four outbound calls, in that order.
\<close>

theorem analyzeToken_all_or_nothing:
  "(analyzeToken env address tokenAddress s = (Inr a, s') \<longrightarrow>
      (\<exists>publicKey mint.
         calls s' = calls s @
           [(Direct, HttpGet (SOLSCAN_API_URL @ ''/api/v1/tokenInfo/'' @ tokenAddress)
                       [(''Authorization'', ''Bearer '' @ SOLSCAN_API_KEY env)] []),
            (Direct, GetTokenAccountsByOwner publicKey mint),
            (Direct, HttpGet (COINGECKO_API_URL @ ''/coins/markets'') [] markets_params),
            (Direct, GetRecentBlockhash)])) \<and>
   (analyzeToken env address tokenAddress s = (Inr a, s') \<longleftrightarrow>
      (\<exists>info s1 bal s2 quotes s3 fee.
         getTokenInfoFromSolscan env tokenAddress s = (Inr info, s1) \<and>
         getTokenBalance env address tokenAddress s1 = (Inr bal, s2) \<and>
         getCryptoPrices env s2 = (Inr quotes, s3) \<and>
         getSolanaGasFee env s3 = (Inr fee, s') \<and>
         a = \<lparr>tokenInfo = info, balance = bal, prices = quotes, gasFee = fee\<rparr>)) \<and>
   (getTokenInfoFromSolscan env tokenAddress s = (Inl e1, t1) \<longrightarrow>
      analyzeToken env address tokenAddress s =
        (Inl (Error ''Failed to analyze token.'' None),
         logger_error (''Error during analysis: '' @ message e1) t1)) \<and>
   (getTokenInfoFromSolscan env tokenAddress s = (Inr i2, t1) \<and>
    getTokenBalance env address tokenAddress t1 = (Inl e2, t2) \<longrightarrow>
      analyzeToken env address tokenAddress s =
        (Inl (Error ''Failed to analyze token.'' None),
         logger_error (''Error during analysis: '' @ message e2) t2)) \<and>
   (getTokenInfoFromSolscan env tokenAddress s = (Inr i2, t1) \<and>
    getTokenBalance env address tokenAddress t1 = (Inr b3, t2) \<and>
    getCryptoPrices env t2 = (Inl e3, t3) \<longrightarrow>
      analyzeToken env address tokenAddress s =
        (Inl (Error ''Failed to analyze token.'' None),
         logger_error (''Error during analysis: '' @ message e3) t3)) \<and>
   (getTokenInfoFromSolscan env tokenAddress s = (Inr i2, t1) \<and>
    getTokenBalance env address tokenAddress t1 = (Inr b3, t2) \<and>
    getCryptoPrices env t2 = (Inr q4, t3) \<and>
    getSolanaGasFee env t3 = (Inl e4, t4) \<longrightarrow>
      analyzeToken env address tokenAddress s =
        (Inl (Error ''Failed to analyze token.'' None),
         logger_error (''Error during analysis: '' @ message e4) t4)) \<and>
   (fst (analyzeToken env address tokenAddress s) = Inl e \<longrightarrow>
      e = Error ''Failed to analyze token.'' None)"
  (is "?trace \<and> ?sequence")
proof
  show ?trace
    using analyzeToken_Inr [of env address tokenAddress s a s'] by blast
  show ?sequence
    by (auto simp add: analyzeToken_def analyzeToken_try_def split: prod.splits sum.splits)
qed

theorem analyzeToken_all_or_nothing_witness:
  "fst (analyzeToken stub_env wallet_A mint_A start) =
     Inr \<lparr>tokenInfo = Some \<lparr>name = Str ''USD Coin'', symbol = Str ''USDC''\<rparr>,
          balance = Num 0,
          prices = prices_of [Coin ''bitcoin'' (Num 60000), Coin ''ethereum'' (Num 3000),
                              Coin ''solana'' (Num 150)],
          gasFee = 5000 / 1000000000\<rparr> \<and>
   analyzeToken env_metadata_down wallet_A mint_A start =
     (Inl (Error ''Failed to analyze token.'' None),
      logger_error ''Error during analysis: Failed to fetch token info.''
        (logger_error ''Error fetching token info from Solscan: Request failed with status code 500''
           (direct_call (HttpGet (SOLSCAN_API_URL @ ''/api/v1/tokenInfo/'' @ mint_A)
                           [(''Authorization'', ''Bearer '')] []) start))) \<and>
   analyzeToken stub_env ''xyz'' mint_A start =
     (Inl (Error ''Failed to analyze token.'' None),
      logger_error ''Error during analysis: Failed to fetch token balance.''
        (logger_error ''Error fetching token balance: Invalid public key input''
           (direct_call (HttpGet (SOLSCAN_API_URL @ ''/api/v1/tokenInfo/'' @ mint_A)
                           [(''Authorization'', ''Bearer '')] []) start))) \<and>
   fst (analyzeToken env_prices_down wallet_A mint_A start) =
     Inl (Error ''Failed to analyze token.'' None) \<and>
   fst (analyzeToken env_fee_down wallet_A mint_A start) =
     Inl (Error ''Failed to analyze token.'' None)"
proof -
  let ?s1 = "direct_call (HttpGet (SOLSCAN_API_URL @ ''/api/v1/tokenInfo/'' @ mint_A)
                           [(''Authorization'', ''Bearer '')] []) start"
  let ?s2 = "direct_call (GetTokenAccountsByOwner (PublicKey wallet_A) (PublicKey mint_A)) ?s1"
  let ?s3 = "direct_call (HttpGet (COINGECKO_API_URL @ ''/coins/markets'') [] markets_params) ?s2"
  let ?s4 = "direct_call GetRecentBlockhash ?s3"
  let ?info = "Some \<lparr>name = Str ''USD Coin'', symbol = Str ''USDC''\<rparr>"
  let ?quotes = "prices_of [Coin ''bitcoin'' (Num 60000), Coin ''ethereum'' (Num 3000),
                              Coin ''solana'' (Num 150)]"
  let ?a = "\<lparr>tokenInfo = ?info, balance = Num 0, prices = ?quotes,
            gasFee = 5000 / 1000000000\<rparr>"
  have a1: "getTokenInfoFromSolscan stub_env mint_A start = (Inr ?info, ?s1)"
    by (simp add: getTokenInfoFromSolscan_def stub_env_def)
  have a2: "getTokenBalance stub_env wallet_A mint_A ?s1 = (Inr (Num 0), ?s2)"
    by (simp add: getTokenBalance_def getTokenBalance_try_def uiAmount_def or_zero_def
        stub_env_def stub_keys)
  have a3: "getCryptoPrices stub_env ?s2 = (Inr ?quotes, ?s3)"
    by (simp add: getCryptoPrices_def COINGECKO_API_URL_def
        markets_params_def stub_env_def)
  have a4: "getSolanaGasFee stub_env ?s3 = (Inr (5000 / 1000000000), ?s4)"
    by (simp add: getSolanaGasFee_def stub_env_def)
  note ok = analyzeToken_all_or_nothing
    [where env = stub_env and address = wallet_A and tokenAddress = mint_A and s = start
       and a = ?a and s' = ?s4, THEN conjunct2, THEN conjunct1]
  have ok': "analyzeToken stub_env wallet_A mint_A start = (Inr ?a, ?s4)"
    using ok a1 a2 a3 a4 by blast
  have b1: "getTokenInfoFromSolscan env_metadata_down mint_A start =
              (Inl (Error ''Failed to fetch token info.'' None),
               logger_error ''Error fetching token info from Solscan: Request failed with status code 500'' ?s1)"
    by (simp add: getTokenInfoFromSolscan_def env_metadata_down_def stub_env_def http_500_def)
  note down = analyzeToken_all_or_nothing
    [where env = env_metadata_down and address = wallet_A and tokenAddress = mint_A and s = start
       and ?e1.0 = "Error ''Failed to fetch token info.'' None"
       and ?t1.0 = "logger_error ''Error fetching token info from Solscan: Request failed with status code 500'' ?s1",
     THEN conjunct2, THEN conjunct2, THEN conjunct1]
  have down': "analyzeToken env_metadata_down wallet_A mint_A start =
     (Inl (Error ''Failed to analyze token.'' None),
      logger_error ''Error during analysis: Failed to fetch token info.''
        (logger_error ''Error fetching token info from Solscan: Request failed with status code 500'' ?s1))"
    using down b1 by simp
  have c2: "getTokenBalance stub_env ''xyz'' mint_A ?s1 =
              (Inl (Error ''Failed to fetch token balance.'' None),
               logger_error ''Error fetching token balance: Invalid public key input'' ?s1)"
    by (simp add: getTokenBalance_def getTokenBalance_try_def stub_env_def stub_keys)
  note bal = analyzeToken_all_or_nothing
    [where env = stub_env and address = "''xyz''" and tokenAddress = mint_A and s = start
       and ?i2.0 = ?info and ?t1.0 = ?s1
       and ?e2.0 = "Error ''Failed to fetch token balance.'' None"
       and ?t2.0 = "logger_error ''Error fetching token balance: Invalid public key input'' ?s1",
     THEN conjunct2, THEN conjunct2, THEN conjunct2, THEN conjunct1]
  have bal': "analyzeToken stub_env ''xyz'' mint_A start =
     (Inl (Error ''Failed to analyze token.'' None),
      logger_error ''Error during analysis: Failed to fetch token balance.''
        (logger_error ''Error fetching token balance: Invalid public key input'' ?s1))"
    using bal a1 c2 by simp
  have d1: "getTokenInfoFromSolscan env_prices_down mint_A start = (Inr ?info, ?s1)"
    by (simp add: getTokenInfoFromSolscan_def env_prices_down_def stub_env_def)
  have d2: "getTokenBalance env_prices_down wallet_A mint_A ?s1 = (Inr (Num 0), ?s2)"
    by (simp add: getTokenBalance_def getTokenBalance_try_def uiAmount_def or_zero_def
        env_prices_down_def stub_env_def stub_keys)
  have d3: "getCryptoPrices env_prices_down ?s2 =
              (Inl (Error ''Failed to fetch crypto prices.'' None),
               logger_error ''Error fetching crypto prices: Request failed with status code 500'' ?s3)"
    by (simp add: getCryptoPrices_def COINGECKO_API_URL_def
        markets_params_def env_prices_down_def stub_env_def http_500_def)
  note pr = analyzeToken_all_or_nothing
    [where env = env_prices_down and address = wallet_A and tokenAddress = mint_A and s = start
       and ?i2.0 = ?info and ?t1.0 = ?s1 and ?b3.0 = "Num 0" and ?t2.0 = ?s2
       and ?e3.0 = "Error ''Failed to fetch crypto prices.'' None"
       and ?t3.0 = "logger_error ''Error fetching crypto prices: Request failed with status code 500'' ?s3",
     THEN conjunct2, THEN conjunct2, THEN conjunct2, THEN conjunct2, THEN conjunct1]
  have pr': "fst (analyzeToken env_prices_down wallet_A mint_A start) =
               Inl (Error ''Failed to analyze token.'' None)"
    using pr d1 d2 d3 by simp
  have f1: "getTokenInfoFromSolscan env_fee_down mint_A start = (Inr ?info, ?s1)"
    by (simp add: getTokenInfoFromSolscan_def env_fee_down_def stub_env_def)
  have f2: "getTokenBalance env_fee_down wallet_A mint_A ?s1 = (Inr (Num 0), ?s2)"
    by (simp add: getTokenBalance_def getTokenBalance_try_def uiAmount_def or_zero_def
        env_fee_down_def stub_env_def stub_keys)
  have f3: "getCryptoPrices env_fee_down ?s2 = (Inr ?quotes, ?s3)"
    by (simp add: getCryptoPrices_def COINGECKO_API_URL_def
        markets_params_def env_fee_down_def stub_env_def)
  have f4: "getSolanaGasFee env_fee_down ?s3 =
              (Inl (Error ''Failed to get Solana gas fee.'' None),
               logger_error ''Error fetching gas fee: fetch failed'' ?s4)"
    by (simp add: getSolanaGasFee_def env_fee_down_def stub_env_def rpc_down_def)
  note fee = analyzeToken_all_or_nothing
    [where env = env_fee_down and address = wallet_A and tokenAddress = mint_A and s = start
       and ?i2.0 = ?info and ?t1.0 = ?s1 and ?b3.0 = "Num 0" and ?t2.0 = ?s2
       and ?q4.0 = ?quotes and ?t3.0 = ?s3
       and ?e4.0 = "Error ''Failed to get Solana gas fee.'' None"
       and ?t4.0 = "logger_error ''Error fetching gas fee: fetch failed'' ?s4",
     THEN conjunct2, THEN conjunct2, THEN conjunct2, THEN conjunct2, THEN conjunct2,
     THEN conjunct1]
  have fee': "fst (analyzeToken env_fee_down wallet_A mint_A start) =
               Inl (Error ''Failed to analyze token.'' None)"
    using fee f1 f2 f3 f4 by simp
  from ok' down' bal' pr' fee' show ?thesis
    by simp
qed

section \<open>Malformed addresses\<close>

text \<open>
  Claim C3 says every operation given a malformed address fails with an invalid-address
  error before any network call is attempted. \<^verbatim>\<open>analyzeToken\<close> with the wallet address
  \<^verbatim>\<open>xyz\<close>, which the key parser rejects, fails only after it has sent the metadata request,
  and with the analysis error.
\<close>

theorem analyzeToken_calls_before_parsing_counterexample:
  "newPublicKey stub_env ''xyz'' = Inl (Error ''Invalid public key input'' None) \<and>
   fst (analyzeToken stub_env ''xyz'' mint_A start) =
     Inl (Error ''Failed to analyze token.'' None) \<and>
   calls (snd (analyzeToken stub_env ''xyz'' mint_A start)) =
     [(Direct, HttpGet (SOLSCAN_API_URL @ ''/api/v1/tokenInfo/'' @ mint_A)
         [(''Authorization'', ''Bearer '')] [])] \<and>
   calls (snd (analyzeToken stub_env ''xyz'' mint_A start)) \<noteq> []"
  by (simp add: analyzeToken_def analyzeToken_try_def getTokenInfoFromSolscan_def
      getTokenBalance_def getTokenBalance_try_def stub_env_def stub_keys
      wallet_A_def mint_A_def start_def Let_def)

text \<open>
  Claim C3, amended. For an address that does not parse: \<^verbatim>\<open>getTokenBalance\<close>, given it as
  the wallet or as the mint, makes no call and throws the fixed
  \<^verbatim>\<open>Error('Failed to fetch token balance.')\<close>; the \<^verbatim>\<open>/balance\<close> handler makes no call and
  replies with the message of the parse error; \<^verbatim>\<open>analyzeToken\<close>, given it as the wallet
  or as the token address, throws \<^verbatim>\<open>Error('Failed to analyze token.')\<close> after exactly one
  call, the metadata request.
\<close>

theorem malformed_address_fails:
  assumes "newPublicKey env address = Inl error"
  shows "getTokenBalance env address tokenAddress s =
           (Inl (Error ''Failed to fetch token balance.'' None),
            logger_error (''Error fetching token balance: '' @ message error) s) \<and>
         calls (snd (getTokenBalance env address tokenAddress s)) = calls s \<and>
         fst (getTokenBalance env wallet address s) =
           Inl (Error ''Failed to fetch token balance.'' None) \<and>
         calls (snd (getTokenBalance env wallet address s)) = calls s \<and>
         (command_args msg \<noteq> [] \<and> command_args msg ! 0 = address \<longrightarrow>
            balance_command env msg s = (Inr (), ctx_reply env (error_reply error) s)) \<and>
         fst (analyzeToken env address tokenAddress s) =
           Inl (Error ''Failed to analyze token.'' None) \<and>
         calls (snd (analyzeToken env address tokenAddress s)) =
           calls s @ [(Direct, HttpGet (SOLSCAN_API_URL @ ''/api/v1/tokenInfo/'' @ tokenAddress)
                         [(''Authorization'', ''Bearer '' @ SOLSCAN_API_KEY env)] [])] \<and>
         fst (analyzeToken env wallet address s) =
           Inl (Error ''Failed to analyze token.'' None) \<and>
         calls (snd (analyzeToken env wallet address s)) =
           calls s @ [(Direct, HttpGet (SOLSCAN_API_URL @ ''/api/v1/tokenInfo/'' @ address)
                         [(''Authorization'', ''Bearer '' @ SOLSCAN_API_KEY env)] [])]"
proof -
  have b: "command_args msg \<noteq> [] \<and> command_args msg ! 0 = address \<longrightarrow>
            balance_command env msg s = (Inr (), ctx_reply env (error_reply error) s)"
    using assms by (auto simp add: balance_command_def balance_try_def Let_def)
  show ?thesis
    using getTokenBalance_malformed_address [OF assms, of tokenAddress s]
      getTokenBalance_malformed_mint [OF assms, of wallet s]
      analyzeToken_malformed_wallet [OF assms, of tokenAddress s]
      analyzeToken_malformed_token [OF assms, of wallet s] b
    by simp
qed

theorem malformed_address_fails_witness:
  "newPublicKey stub_env ''xyz'' = Inl (Error ''Invalid public key input'' None) \<and>
   fst (getTokenBalance stub_env ''xyz'' mint_A start) =
     Inl (Error ''Failed to fetch token balance.'' None) \<and>
   calls (snd (getTokenBalance stub_env ''xyz'' mint_A start)) = [] \<and>
   balance_command stub_env ''/balance xyz'' start =
     (Inr (), ctx_reply stub_env
                [Lit (cross_mark @ '' Error: ''), Val (Str ''Invalid public key input'')] start) \<and>
   calls (snd (analyzeToken stub_env ''xyz'' mint_A start)) =
     [(Direct, HttpGet (SOLSCAN_API_URL @ ''/api/v1/tokenInfo/'' @ mint_A)
         [(''Authorization'', ''Bearer '')] [])] \<and>
   fst (analyzeToken stub_env wallet_A ''xyz'' start) =
     Inl (Error ''Failed to analyze token.'' None) \<and>
   calls (snd (analyzeToken stub_env wallet_A ''xyz'' start)) =
     [(Direct, HttpGet (SOLSCAN_API_URL @ ''/api/v1/tokenInfo/xyz'')
         [(''Authorization'', ''Bearer '')] [])]"
proof -
  have bad: "newPublicKey stub_env ''xyz'' = Inl (Error ''Invalid public key input'' None)"
    by (simp add: stub_env_def stub_keys)
  have args: "command_args ''/balance xyz'' \<noteq> [] \<and> command_args ''/balance xyz'' ! 0 = ''xyz''"
    by (simp add: command_args_def)
  have key: "SOLSCAN_API_KEY stub_env = []"
    by (simp add: stub_env_def)
  have st: "calls start = []"
    by (simp add: start_def)
  from malformed_address_fails [OF bad, of mint_A start wallet_A "''/balance xyz''"] bad args key st
  show ?thesis
    by (simp add: error_reply_def)
qed

section \<open>The token balance of a wallet without a token account\<close>

text \<open>
  Claim C4. For a wallet address and a mint that both parse, when the RPC lookup succeeds and
  finds no token account of the wallet for the mint, \<^verbatim>\<open>getTokenBalance\<close> returns 0 and
  not an error; the lookup is the only call it makes, and nothing is logged.
\<close>

theorem getTokenBalance_no_account:
  assumes "newPublicKey env address = Inr publicKey"
    and "newPublicKey env tokenAddress = Inr mint"
    and "getTokenAccountsByOwner env publicKey mint = Inr []"
  shows "getTokenBalance env address tokenAddress s =
           (Inr (Num 0), direct_call (GetTokenAccountsByOwner publicKey mint) s)"
  using assms
  by (simp add: getTokenBalance_def getTokenBalance_try_def uiAmount_def or_zero_def)

theorem getTokenBalance_no_account_witness:
  "newPublicKey stub_env wallet_A = Inr (PublicKey wallet_A) \<and>
   newPublicKey stub_env mint_A = Inr (PublicKey mint_A) \<and>
   getTokenAccountsByOwner stub_env (PublicKey wallet_A) (PublicKey mint_A) = Inr [] \<and>
   getTokenBalance stub_env wallet_A mint_A start =
     (Inr (Num 0),
      direct_call (GetTokenAccountsByOwner (PublicKey wallet_A) (PublicKey mint_A)) start)"
proof -
  have k1: "newPublicKey stub_env wallet_A = Inr (PublicKey wallet_A)"
    by (simp add: stub_env_def stub_keys)
  have k2: "newPublicKey stub_env mint_A = Inr (PublicKey mint_A)"
    by (simp add: stub_env_def stub_keys)
  have k3: "getTokenAccountsByOwner stub_env (PublicKey wallet_A) (PublicKey mint_A) = Inr []"
    by (simp add: stub_env_def)
  from getTokenBalance_no_account [OF k1 k2 k3, of start] k1 k2 k3 show ?thesis
    by simp
qed

section \<open>The unit of the recent fee\<close>

text \<open>
  Claim C5 says the fee is returned in lamports. With 5000 lamports per signature the
  function returns 5000 / 1000000000 = 1 / 200000, the fee in SOL, not 5000.
\<close>

theorem getSolanaGasFee_in_lamports_counterexample:
  "getRecentBlockhash stub_env = Inr 5000 \<and>
   fst (getSolanaGasFee stub_env start) = Inr (1 / 200000) \<and>
   fst (getSolanaGasFee stub_env start) \<noteq> Inr 5000"
  by (simp add: getSolanaGasFee_def stub_env_def)

text \<open>
  Claim C5, amended. \<^verbatim>\<open>getSolanaGasFee\<close> makes one RPC call. When it succeeds the result is
  the fee per signature converted to SOL, the lamports divided by 1000000000; when it fails
  the cause's message is logged and the fixed error \<^verbatim>\<open>Failed to get Solana gas fee.\<close> is
  thrown. It fails in no other way.
\<close>

theorem getSolanaGasFee_in_SOL:
  "(getRecentBlockhash env = Inr lamportsPerSignature \<longrightarrow>
      getSolanaGasFee env s =
        (Inr (of_nat lamportsPerSignature / 1000000000), direct_call GetRecentBlockhash s)) \<and>
   (getRecentBlockhash env = Inl error \<longrightarrow>
      getSolanaGasFee env s =
        (Inl (Error ''Failed to get Solana gas fee.'' None),
         logger_error (''Error fetching gas fee: '' @ message error)
           (direct_call GetRecentBlockhash s)))"
  by (simp add: getSolanaGasFee_def)

theorem getSolanaGasFee_in_SOL_witness:
  "fst (getSolanaGasFee stub_env start) = Inr (5000 / 1000000000) \<and>
   fst (getSolanaGasFee env_fee_down start) = Inl (Error ''Failed to get Solana gas fee.'' None)"
proof -
  have ok: "getRecentBlockhash stub_env = Inr 5000"
    by (simp add: stub_env_def)
  have down: "getRecentBlockhash env_fee_down = Inl rpc_down"
    by (simp add: env_fee_down_def)
  from getSolanaGasFee_in_SOL [of stub_env 5000 start] ok
  have a: "fst (getSolanaGasFee stub_env start) = Inr (5000 / 1000000000)"
    by simp
  from getSolanaGasFee_in_SOL [of env_fee_down _ start rpc_down] down
  have b: "fst (getSolanaGasFee env_fee_down start) =
             Inl (Error ''Failed to get Solana gas fee.'' None)"
    by simp
  from a b show ?thesis by simp
qed

section \<open>No error of a call leaves a handler\<close>

text \<open>
  Claim C6. Whatever the calls of a handler do, its promise is rejected only when a send of
  the chat transport is rejected, and a rejection is left unhandled only then. So when the
  sends succeed, every handler returns normally and the messages after it are served from
  the state it left; a run of any length is served to its end, with at least one reply per
  message. When the analysis, the key parser, the balance lookup, the price fetch or the
  fee query throws, the handler's last reply is the error message.
\<close>

theorem handlers_catch_every_error:
  "(fst (on_command env c msg s) = Inl e \<longrightarrow> (\<exists>text. sendMessage env text = Inl e)) \<and>
   (e \<in> set (unhandled (snd (on_command env c msg s))) \<longrightarrow>
      e \<in> set (unhandled s) \<or> (\<exists>text. sendMessage env text = Inl e)) \<and>
   ((\<forall>text. sendMessage env text = Inr ()) \<and> unhandled s = [] \<longrightarrow>
      fst (on_command env c msg s) = Inr () \<and>
      unhandled (snd (on_command env c msg s)) = [] \<and>
      Suc (length (replies s)) \<le> length (replies (snd (on_command env c msg s))) \<and>
      serve ((env, c, msg) # rest) s = serve rest (snd (on_command env c msg s))) \<and>
   ((\<forall>x\<in>set run. \<forall>text. sendMessage (fst x) text = Inr ()) \<and> unhandled s = [] \<longrightarrow>
      fst (serve run s) = Inr () \<and>
      length (replies s) + length run \<le> length (replies (snd (serve run s))) \<and>
      serve (run @ rest) s = serve rest (snd (serve run s))) \<and>
   (\<not> length (command_args msg) < 2 \<and>
    fst (analyzeToken env (command_args msg ! 1) (command_args msg ! 0)
           (ctx_reply env [Lit (magnifier @ '' Analyzing the token. Please wait...'')] s)) = Inl e \<longrightarrow>
      replies (snd (on_command env Check msg s)) =
        replies s @ [[Lit (magnifier @ '' Analyzing the token. Please wait...'')], error_reply e]) \<and>
   (\<not> length (command_args msg) < 1 \<and>
    (newPublicKey env (command_args msg ! 0) = Inl e \<or>
     (\<exists>publicKey. newPublicKey env (command_args msg ! 0) = Inr publicKey \<and>
        getBalance env publicKey = Inl e)) \<longrightarrow>
      replies (snd (on_command env Balance msg s)) = replies s @ [error_reply e]) \<and>
   (fst (getCryptoPrices env s) = Inl e \<longrightarrow>
      replies (snd (on_command env Prices msg s)) = replies s @ [error_reply e]) \<and>
   (fst (getSolanaGasFee env s) = Inl e \<longrightarrow>
      replies (snd (on_command env Gas msg s)) = replies s @ [error_reply e])"
proof -
  have a: "fst (on_command env c msg s) = Inl e \<longrightarrow> (\<exists>text. sendMessage env text = Inl e)"
    using on_command_rejected [of env c msg s e] by blast
  have b: "e \<in> set (unhandled (snd (on_command env c msg s))) \<longrightarrow>
      e \<in> set (unhandled s) \<or> (\<exists>text. sendMessage env text = Inl e)"
    using on_command_unhandled [of e env c msg s] by blast
  have c: "(\<forall>text. sendMessage env text = Inr ()) \<and> unhandled s = [] \<longrightarrow>
      fst (on_command env c msg s) = Inr () \<and>
      unhandled (snd (on_command env c msg s)) = [] \<and>
      Suc (length (replies s)) \<le> length (replies (snd (on_command env c msg s))) \<and>
      serve ((env, c, msg) # rest) s = serve rest (snd (on_command env c msg s))"
    using on_command_sent [of env c msg s] on_command_replies [of s env c msg]
      serve_step [of env s c msg rest]
    by simp
  have d: "(\<forall>x\<in>set run. \<forall>text. sendMessage (fst x) text = Inr ()) \<and> unhandled s = [] \<longrightarrow>
      fst (serve run s) = Inr () \<and>
      length (replies s) + length run \<le> length (replies (snd (serve run s))) \<and>
      serve (run @ rest) s = serve rest (snd (serve run s))"
    using serve_sent [of run s rest] by blast
  have e1: "\<not> length (command_args msg) < 2 \<and>
    fst (analyzeToken env (command_args msg ! 1) (command_args msg ! 0)
           (ctx_reply env [Lit (magnifier @ '' Analyzing the token. Please wait...'')] s)) = Inl e \<longrightarrow>
      replies (snd (on_command env Check msg s)) =
        replies s @ [[Lit (magnifier @ '' Analyzing the token. Please wait...'')], error_reply e]"
    using check_command_error_reply [of msg env s e] by (simp add: on_command_def)
  have e2: "\<not> length (command_args msg) < 1 \<and>
    (newPublicKey env (command_args msg ! 0) = Inl e \<or>
     (\<exists>publicKey. newPublicKey env (command_args msg ! 0) = Inr publicKey \<and>
        getBalance env publicKey = Inl e)) \<longrightarrow>
      replies (snd (on_command env Balance msg s)) = replies s @ [error_reply e]"
    using balance_command_error_reply [of msg env e s] by (simp add: on_command_def)
  have e3: "fst (getCryptoPrices env s) = Inl e \<longrightarrow>
      replies (snd (on_command env Prices msg s)) = replies s @ [error_reply e]"
    using prices_command_error_reply [of env s e] by (simp add: on_command_def)
  have e4: "fst (getSolanaGasFee env s) = Inl e \<longrightarrow>
      replies (snd (on_command env Gas msg s)) = replies s @ [error_reply e]"
    using gas_command_error_reply [of env s e] by (simp add: on_command_def)
  show ?thesis
    using a b c d e1 e2 e3 e4 by (intro conjI)
qed

theorem handlers_catch_every_error_witness:
  "serve [(stub_env, Balance, ''/balance xyz''), (stub_env, Help, ''/help'')] start =
     (Inr (), snd (on_command stub_env Help ''/help''
                     (snd (on_command stub_env Balance ''/balance xyz'' start)))) \<and>
   replies (snd (serve [(stub_env, Balance, ''/balance xyz''), (stub_env, Help, ''/help'')] start)) =
     [Lit (cross_mark @ '' Error: ''), Val (Str ''Invalid public key input'')] #
     replies (snd (help_command stub_env start)) \<and>
   length (replies (snd (help_command stub_env start))) = 1 \<and>
   replies (snd (on_command stub_env Balance ''/balance xyz'' start)) =
     [[Lit (cross_mark @ '' Error: ''), Val (Str ''Invalid public key input'')]] \<and>
   replies (snd (on_command env_balance_down Balance (''/balance '' @ wallet_A) start)) =
     [[Lit (cross_mark @ '' Error: ''), Val (Str ''fetch failed'')]] \<and>
   replies (snd (on_command env_metadata_down Check (''/check '' @ mint_A @ '' '' @ wallet_A) start)) =
     [[Lit (magnifier @ '' Analyzing the token. Please wait...'')],
      [Lit (cross_mark @ '' Error: ''), Val (Str ''Failed to analyze token.'')]] \<and>
   replies (snd (on_command env_prices_down Prices ''/prices'' start)) =
     [[Lit (cross_mark @ '' Error: ''), Val (Str ''Failed to fetch crypto prices.'')]] \<and>
   replies (snd (on_command env_fee_down Gas ''/gas'' start)) =
     [[Lit (cross_mark @ '' Error: ''), Val (Str ''Failed to get Solana gas fee.'')]] \<and>
   fst (on_command env_send_down Balance ''/balance'' start) = Inl rpc_down \<and>
   sendMessage env_send_down [Lit (cross_mark @ '' Usage: /balance <SOLANA_ADDRESS>'')] =
     Inl rpc_down \<and>
   fst (serve [(env_send_down, Balance, ''/balance''), (stub_env, Help, ''/help'')] start) =
     Inl rpc_down \<and>
   unhandled (snd (on_command env_send_down Help ''/help'' start)) = [rpc_down] \<and>
   fst (serve [(env_send_down, Help, ''/help''), (stub_env, Help, ''/help'')] start) =
     Inl rpc_down \<and>
   2 \<le> length (replies (snd (serve [(stub_env, Balance, ''/balance xyz''),
                                        (stub_env, Help, ''/help'')] start)))"
proof -
  let ?m1 = "''/balance xyz''"
  let ?s1 = "snd (on_command stub_env Balance ?m1 start)"
  let ?s2 = "snd (on_command stub_env Help ''/help'' ?s1)"
  have sent: "\<forall>text. sendMessage stub_env text = Inr ()"
    by (simp add: stub_env_def)
  have u0: "unhandled start = []"
    by (simp add: start_def)
  note th1 = handlers_catch_every_error
    [where env = stub_env and c = Balance and msg = ?m1 and s = start
       and rest = "[(stub_env, Help, ''/help'')]"
       and e = "Error ''Invalid public key input'' None"]
  note step1 = th1 [THEN conjunct2, THEN conjunct2, THEN conjunct1, rule_format, OF conjI,
      OF sent u0]
  have u1: "unhandled ?s1 = []"
    using step1 by simp
  have sv1: "serve [(stub_env, Balance, ?m1), (stub_env, Help, ''/help'')] start =
               serve [(stub_env, Help, ''/help'')] ?s1"
    using step1 by simp
  note step2 = handlers_catch_every_error
    [where env = stub_env and c = Help and msg = "''/help''" and s = ?s1 and rest = "[]",
     THEN conjunct2, THEN conjunct2, THEN conjunct1, rule_format, OF conjI, OF sent u1]
  have sv2: "serve [(stub_env, Help, ''/help'')] ?s1 = (Inr (), ?s2)"
    using step2 by simp
  have a: "serve [(stub_env, Balance, ?m1), (stub_env, Help, ''/help'')] start = (Inr (), ?s2)"
    using sv1 sv2 by simp
  have args: "\<not> length (command_args ?m1) < 1"
    by (simp add: command_args_def)
  have bad: "newPublicKey stub_env (command_args ?m1 ! 0) =
               Inl (Error ''Invalid public key input'' None)"
    by (simp add: command_args_def stub_env_def stub_keys)
  have c: "replies ?s1 = [[Lit (cross_mark @ '' Error: ''), Val (Str ''Invalid public key input'')]]"
    using th1 [THEN conjunct2, THEN conjunct2, THEN conjunct2, THEN conjunct2, THEN conjunct2,
        THEN conjunct1] args bad
    by (simp add: start_def error_reply_def)
  have h: "replies ?s2 = replies ?s1 @ replies (snd (help_command stub_env start))"
    by (simp add: on_command_def help_command_def start_def)
  have b: "replies (snd (serve [(stub_env, Balance, ?m1), (stub_env, Help, ''/help'')] start)) =
     [Lit (cross_mark @ '' Error: ''), Val (Str ''Invalid public key input'')] #
     replies (snd (help_command stub_env start))"
    using a c h by simp
  have b': "length (replies (snd (help_command stub_env start))) = 1"
    by (simp add: help_command_def start_def)
  let ?bal = "''/balance '' @ wallet_A"
  have bargs: "command_args ?bal = [wallet_A]"
    by (simp add: command_args_def wallet_A_def)
  have bargs1: "\<not> length (command_args ?bal) < 1"
    by (simp only: bargs) simp
  have bkey: "newPublicKey env_balance_down (command_args ?bal ! 0) = Inr (PublicKey wallet_A)"
    by (simp only: bargs) (simp add: env_balance_down_def stub_env_def stub_keys)
  have bdown: "getBalance env_balance_down (PublicKey wallet_A) = Inl (Error ''fetch failed'' None)"
    by (simp add: env_balance_down_def rpc_down_def)
  have d: "replies (snd (on_command env_balance_down Balance ?bal start)) =
     [[Lit (cross_mark @ '' Error: ''), Val (Str ''fetch failed'')]]"
    using handlers_catch_every_error
      [where env = env_balance_down and msg = ?bal and s = start
         and e = "Error ''fetch failed'' None",
       THEN conjunct2, THEN conjunct2, THEN conjunct2, THEN conjunct2, THEN conjunct2,
       THEN conjunct1] bargs1 bkey bdown
    by (simp add: start_def error_reply_def)
  let ?chk = "''/check '' @ mint_A @ '' '' @ wallet_A"
  let ?s0 = "ctx_reply env_metadata_down
               [Lit (magnifier @ '' Analyzing the token. Please wait...'')] start"
  have cargs: "command_args ?chk = [mint_A, wallet_A]"
    by (simp add: command_args_def mint_A_def wallet_A_def)
  have cargs2: "\<not> length (command_args ?chk) < 2"
    by (simp only: cargs) simp
  have cfail: "fst (analyzeToken env_metadata_down (command_args ?chk ! 1) (command_args ?chk ! 0) ?s0) =
                 Inl (Error ''Failed to analyze token.'' None)"
    by (simp only: cargs)
      (simp add: analyzeToken_def analyzeToken_try_def getTokenInfoFromSolscan_def
        env_metadata_down_def Let_def)
  have e: "replies (snd (on_command env_metadata_down Check ?chk start)) =
     [[Lit (magnifier @ '' Analyzing the token. Please wait...'')],
      [Lit (cross_mark @ '' Error: ''), Val (Str ''Failed to analyze token.'')]]"
    using handlers_catch_every_error
      [where env = env_metadata_down and msg = ?chk and s = start
         and e = "Error ''Failed to analyze token.'' None",
       THEN conjunct2, THEN conjunct2, THEN conjunct2, THEN conjunct2, THEN conjunct1]
      cargs2 cfail
    by (simp add: start_def error_reply_def)
  have pfail: "fst (getCryptoPrices env_prices_down start) =
                 Inl (Error ''Failed to fetch crypto prices.'' None)"
    by (simp add: getCryptoPrices_def env_prices_down_def Let_def)
  have f: "replies (snd (on_command env_prices_down Prices ''/prices'' start)) =
     [[Lit (cross_mark @ '' Error: ''), Val (Str ''Failed to fetch crypto prices.'')]]"
    using handlers_catch_every_error
      [where env = env_prices_down and msg = "''/prices''" and s = start
         and e = "Error ''Failed to fetch crypto prices.'' None",
       THEN conjunct2, THEN conjunct2, THEN conjunct2, THEN conjunct2, THEN conjunct2,
       THEN conjunct2, THEN conjunct1] pfail
    by (simp add: start_def error_reply_def)
  have gfail: "fst (getSolanaGasFee env_fee_down start) =
                 Inl (Error ''Failed to get Solana gas fee.'' None)"
    by (simp add: getSolanaGasFee_def env_fee_down_def Let_def)
  have g: "replies (snd (on_command env_fee_down Gas ''/gas'' start)) =
     [[Lit (cross_mark @ '' Error: ''), Val (Str ''Failed to get Solana gas fee.'')]]"
    using handlers_catch_every_error
      [where env = env_fee_down and msg = "''/gas''" and s = start
         and e = "Error ''Failed to get Solana gas fee.'' None",
       THEN conjunct2, THEN conjunct2, THEN conjunct2, THEN conjunct2, THEN conjunct2,
       THEN conjunct2, THEN conjunct2] gfail
    by (simp add: start_def error_reply_def)
  have k: "fst (on_command env_send_down Balance ''/balance'' start) = Inl rpc_down"
    by (simp add: on_command_def balance_command_def command_args_def return_ctx_reply_def
        env_send_down_def)
  have k': "sendMessage env_send_down [Lit (cross_mark @ '' Usage: /balance <SOLANA_ADDRESS>'')] =
     Inl rpc_down"
    by (simp add: env_send_down_def)
  have l: "fst (serve [(env_send_down, Balance, ''/balance''), (stub_env, Help, ''/help'')] start) =
     Inl rpc_down"
    by (simp add: on_command_def balance_command_def command_args_def return_ctx_reply_def
        env_send_down_def)
  have m: "unhandled (snd (on_command env_send_down Help ''/help'' start)) = [rpc_down]"
    by (simp add: on_command_def help_command_def ctx_reply_def env_send_down_def start_def)
  have n: "fst (serve [(env_send_down, Help, ''/help''), (stub_env, Help, ''/help'')] start) =
     Inl rpc_down"
    by (simp add: on_command_def help_command_def ctx_reply_def env_send_down_def start_def)
  have run_sent: "\<forall>x\<in>set [(stub_env, Balance, ?m1), (stub_env, Help, ''/help'')].
                    \<forall>text. sendMessage (fst x) text = Inr ()"
    using sent by simp
  note whole = handlers_catch_every_error
    [where s = start and run = "[(stub_env, Balance, ?m1), (stub_env, Help, ''/help'')]",
     THEN conjunct2, THEN conjunct2, THEN conjunct2, THEN conjunct1, rule_format, OF conjI,
     OF run_sent u0, THEN conjunct2, THEN conjunct1]
  have o: "2 \<le> length (replies (snd (serve [(stub_env, Balance, ?m1),
                                               (stub_env, Help, ''/help'')] start)))"
    using whole by simp
  from a b b' c d e f g k k' l m n o show ?thesis
    by (intro conjI)
qed

section \<open>A failed price request\<close>

text \<open>
  Claim C7. When the price request is rejected, \<^verbatim>\<open>getCryptoPrices\<close> throws the fixed error
  \<^verbatim>\<open>Failed to fetch crypto prices.\<close> and returns no prices at all; the \<^verbatim>\<open>/prices\<close>
  handler then sends exactly one reply, the error message, which holds no price.
\<close>

theorem prices_failure_discards_batch:
  assumes "axios_get_markets env (COINGECKO_API_URL @ ''/coins/markets'') markets_params = Inl error"
  shows "fst (getCryptoPrices env s) = Inl (Error ''Failed to fetch crypto prices.'' None) \<and>
         fst (prices_command env s) = Inr () \<and>
         replies (snd (prices_command env s)) =
           replies s @ [[Lit (cross_mark @ '' Error: ''), Val (Str ''Failed to fetch crypto prices.'')]]"
  using assms
  by (simp add: prices_command_def getCryptoPrices_def error_reply_def Let_def)

theorem prices_failure_discards_batch_witness:
  "axios_get_markets env_prices_down (COINGECKO_API_URL @ ''/coins/markets'') markets_params =
     Inl http_500 \<and>
   replies (snd (prices_command env_prices_down start)) =
     [[Lit (cross_mark @ '' Error: ''), Val (Str ''Failed to fetch crypto prices.'')]]"
proof -
  have down: "axios_get_markets env_prices_down (COINGECKO_API_URL @ ''/coins/markets'')
                markets_params = Inl http_500"
    by (simp add: env_prices_down_def)
  from prices_failure_discards_batch [OF down, of start] down show ?thesis
    by (simp add: start_def)
qed

section \<open>The price shown by /check\<close>

text \<open>
  Claim C9. Whenever \<^verbatim>\<open>/check\<close> sends its analysis reply, the value after
  \<^verbatim>\<open>Token Price\<close> is the price that the answer to the fixed request (currency usd, ids
  solana, bitcoin, ethereum) gives for the id \<^verbatim>\<open>solana\<close>, the last such entry winning, or
  \<^verbatim>\<open>undefined\<close> when there is none. This holds for every token address; the only price
  request among the four calls made is that fixed one.
\<close>

theorem check_reply_price_is_solana:
  assumes "\<not> length (command_args msg) < 2"
    and "check_try env (command_args msg ! 1) (command_args msg ! 0) s = (Inr (), s')"
  shows "\<exists>data info bal fee publicKey mint reply.
           axios_get_markets env ''https://api.coingecko.com/api/v3/coins/markets''
             [(''vs_currency'', ''usd''), (''ids'', ''solana,bitcoin,ethereum'')] = Inr data \<and>
           check_command env msg s = (Inr (), s') \<and>
           replies s' = replies s @
             [[Lit (magnifier @ '' Analyzing the token. Please wait...'')], reply] \<and>
           check_template \<lparr>tokenInfo = Some info, balance = bal,
                           prices = prices_of data, gasFee = fee\<rparr> = Inr reply \<and>
           reply ! 4 = Lit (nl @ ''            - **Token Price**: $'') \<and>
           reply ! 5 = Val (case find (\<lambda>c. coin_id c = ''solana'') (rev data) of
                              None \<Rightarrow> Undefined
                            | Some c \<Rightarrow> current_price c) \<and>
           calls s' = calls s @
             [(Direct, HttpGet (''https://api.solscan.io/api/v1/tokenInfo/'' @ command_args msg ! 0)
                         [(''Authorization'', ''Bearer '' @ SOLSCAN_API_KEY env)] []),
              (Direct, GetTokenAccountsByOwner publicKey mint),
              (Direct, HttpGet ''https://api.coingecko.com/api/v3/coins/markets'' []
                         [(''vs_currency'', ''usd''), (''ids'', ''solana,bitcoin,ethereum'')]),
              (Direct, GetRecentBlockhash)]"
proof -
  let ?s0 = "ctx_reply env [Lit (magnifier @ '' Analyzing the token. Please wait...'')] s"
  obtain r s1 where an: "analyzeToken env (command_args msg ! 1) (command_args msg ! 0) ?s0 = (r, s1)"
    by (cases "analyzeToken env (command_args msg ! 1) (command_args msg ! 0) ?s0")
  from assms(2) an obtain a reply where
    r: "r = Inr a" and tpl: "check_template a = Inr reply" and s': "s' = ctx_reply env reply s1"
    by (auto simp add: check_try_def Let_def split: sum.splits)
  from tpl obtain info where info: "tokenInfo a = Some info"
    by (auto simp add: check_template_def split: option.splits)
  from analyzeToken_Inr [OF an [unfolded r]] obtain data publicKey mint where
    d: "axios_get_markets env (COINGECKO_API_URL @ ''/coins/markets'') markets_params = Inr data" and
    p: "prices a = prices_of data" and
    rs: "replies s1 = replies ?s0" and
    cs: "calls s1 = calls ?s0 @
             [(Direct, HttpGet (SOLSCAN_API_URL @ ''/api/v1/tokenInfo/'' @ command_args msg ! 0)
                         [(''Authorization'', ''Bearer '' @ SOLSCAN_API_KEY env)] []),
              (Direct, GetTokenAccountsByOwner publicKey mint),
              (Direct, HttpGet (COINGECKO_API_URL @ ''/coins/markets'') [] markets_params),
              (Direct, GetRecentBlockhash)]"
    by blast
  have a: "a = \<lparr>tokenInfo = Some info, balance = balance a,
                 prices = prices_of data, gasFee = gasFee a\<rparr>"
    using info p by simp
  have t4: "reply ! 4 = Lit (nl @ ''            - **Token Price**: $'')"
    using tpl info by (auto simp add: check_template_def)
  have t5: "reply ! 5 = Val (case find (\<lambda>c. coin_id c = ''solana'') (rev data) of
                              None \<Rightarrow> Undefined
                            | Some c \<Rightarrow> current_price c)"
    using tpl info p get_prop_prices_of [of data "''solana''"]
    by (auto simp add: check_template_def)
  have cmd: "check_command env msg s = (Inr (), s')"
    using assms by (simp add: check_command_def Let_def)
  have tpl': "check_template \<lparr>tokenInfo = Some info, balance = balance a,
                 prices = prices_of data, gasFee = gasFee a\<rparr> = Inr reply"
    using tpl a by simp
  have rs': "replies s' = replies s @
             [[Lit (magnifier @ '' Analyzing the token. Please wait...'')], reply]"
    using rs s' by simp
  have cs': "calls s' = calls s @
             [(Direct, HttpGet (SOLSCAN_API_URL @ ''/api/v1/tokenInfo/'' @ command_args msg ! 0)
                         [(''Authorization'', ''Bearer '' @ SOLSCAN_API_KEY env)] []),
              (Direct, GetTokenAccountsByOwner publicKey mint),
              (Direct, HttpGet (COINGECKO_API_URL @ ''/coins/markets'') [] markets_params),
              (Direct, GetRecentBlockhash)]"
    using cs s' by simp
  have d': "axios_get_markets env ''https://api.coingecko.com/api/v3/coins/markets''
             [(''vs_currency'', ''usd''), (''ids'', ''solana,bitcoin,ethereum'')] = Inr data"
    using d by (simp add: COINGECKO_API_URL_def markets_params_def)
  have cs'': "calls s' = calls s @
             [(Direct, HttpGet (''https://api.solscan.io/api/v1/tokenInfo/'' @ command_args msg ! 0)
                         [(''Authorization'', ''Bearer '' @ SOLSCAN_API_KEY env)] []),
              (Direct, GetTokenAccountsByOwner publicKey mint),
              (Direct, HttpGet ''https://api.coingecko.com/api/v3/coins/markets'' []
                         [(''vs_currency'', ''usd''), (''ids'', ''solana,bitcoin,ethereum'')]),
              (Direct, GetRecentBlockhash)]"
    using cs' by (simp add: SOLSCAN_API_URL_def COINGECKO_API_URL_def markets_params_def)
  from d' cmd rs' tpl' t4 t5 cs'' show ?thesis
    by blast
qed

theorem check_reply_price_is_solana_witness:
  "\<exists>reply. replies (snd (check_command stub_env (''/check '' @ mint_A @ '' '' @ wallet_A) start)) =
              [[Lit (magnifier @ '' Analyzing the token. Please wait...'')], reply] \<and>
           reply ! 4 = Lit (nl @ ''            - **Token Price**: $'') \<and>
           reply ! 5 = Val (Num 150) \<and>
           map snd (calls (snd (check_command stub_env (''/check '' @ mint_A @ '' '' @ wallet_A) start))) =
             [HttpGet (''https://api.solscan.io/api/v1/tokenInfo/'' @ mint_A)
                [(''Authorization'', ''Bearer '')] [],
              GetTokenAccountsByOwner (PublicKey wallet_A) (PublicKey mint_A),
              HttpGet ''https://api.coingecko.com/api/v3/coins/markets'' []
                [(''vs_currency'', ''usd''), (''ids'', ''solana,bitcoin,ethereum'')],
              GetRecentBlockhash]"
proof -
  let ?msg = "''/check '' @ mint_A @ '' '' @ wallet_A"
  have args: "command_args ?msg = [mint_A, wallet_A]"
    by (simp add: command_args_def mint_A_def wallet_A_def)
  have h1: "\<not> length (command_args ?msg) < 2"
    by (simp only: args) simp
  have ok: "fst (check_try stub_env wallet_A mint_A start) = Inr ()"
    by (simp add: check_try_def check_template_def analyzeToken_def analyzeToken_try_def
        getTokenInfoFromSolscan_def getTokenBalance_def getTokenBalance_try_def
        getCryptoPrices_def getSolanaGasFee_def uiAmount_def or_zero_def
        COINGECKO_API_URL_def markets_params_def stub_env_def stub_keys Let_def)
  have h2: "check_try stub_env (command_args ?msg ! 1) (command_args ?msg ! 0) start =
              (Inr (), snd (check_try stub_env wallet_A mint_A start))"
    using ok by (simp only: args) (simp add: prod_eq_iff)
  from check_reply_price_is_solana [OF h1 h2] obtain data info bal fee publicKey mint reply where
    d: "axios_get_markets stub_env ''https://api.coingecko.com/api/v3/coins/markets''
          [(''vs_currency'', ''usd''), (''ids'', ''solana,bitcoin,ethereum'')] = Inr data" and
    c: "check_command stub_env ?msg start = (Inr (), snd (check_try stub_env wallet_A mint_A start))" and
    r: "replies (snd (check_try stub_env wallet_A mint_A start)) = replies start @
             [[Lit (magnifier @ '' Analyzing the token. Please wait...'')], reply]" and
    tp: "check_template \<lparr>tokenInfo = Some info, balance = bal,
                           prices = prices_of data, gasFee = fee\<rparr> = Inr reply" and
    q: "reply ! 4 = Lit (nl @ ''            - **Token Price**: $'')" and
    p: "reply ! 5 = Val (case find (\<lambda>c. coin_id c = ''solana'') (rev data) of
                              None \<Rightarrow> Undefined
                            | Some c \<Rightarrow> current_price c)" and
    k: "calls (snd (check_try stub_env wallet_A mint_A start)) = calls start @
             [(Direct, HttpGet (''https://api.solscan.io/api/v1/tokenInfo/'' @ command_args ?msg ! 0)
                         [(''Authorization'', ''Bearer '' @ SOLSCAN_API_KEY stub_env)] []),
              (Direct, GetTokenAccountsByOwner publicKey mint),
              (Direct, HttpGet ''https://api.coingecko.com/api/v3/coins/markets'' []
                         [(''vs_currency'', ''usd''), (''ids'', ''solana,bitcoin,ethereum'')]),
              (Direct, GetRecentBlockhash)]"
    by (elim exE conjE) (rule that)
  from d have data: "data = [Coin ''bitcoin'' (Num 60000), Coin ''ethereum'' (Num 3000),
                             Coin ''solana'' (Num 150)]"
    by (simp add: stub_env_def)
  have p': "reply ! 5 = Val (Num 150)"
    using p by (simp add: data)
  have r': "replies (snd (check_command stub_env ?msg start)) =
              [[Lit (magnifier @ '' Analyzing the token. Please wait...'')], reply]"
    using r c by (simp add: start_def)
  have keys: "map snd (calls (snd (check_try stub_env wallet_A mint_A start))) ! 1 =
                GetTokenAccountsByOwner (PublicKey wallet_A) (PublicKey mint_A)"
    by (simp add: check_try_def check_template_def analyzeToken_def analyzeToken_try_def
        getTokenInfoFromSolscan_def getTokenBalance_def getTokenBalance_try_def
        getCryptoPrices_def getSolanaGasFee_def uiAmount_def or_zero_def
        COINGECKO_API_URL_def markets_params_def stub_env_def stub_keys start_def Let_def)
  have km: "GetTokenAccountsByOwner publicKey mint =
              GetTokenAccountsByOwner (PublicKey wallet_A) (PublicKey mint_A)"
    using keys k by (simp add: start_def)
  have a0: "command_args ?msg ! 0 = mint_A"
    by (simp only: args) simp
  have k': "map snd (calls (snd (check_command stub_env ?msg start))) =
             [HttpGet (''https://api.solscan.io/api/v1/tokenInfo/'' @ mint_A)
                [(''Authorization'', ''Bearer '')] [],
              GetTokenAccountsByOwner (PublicKey wallet_A) (PublicKey mint_A),
              HttpGet ''https://api.coingecko.com/api/v3/coins/markets'' []
                [(''vs_currency'', ''usd''), (''ids'', ''solana,bitcoin,ethereum'')],
              GetRecentBlockhash]"
    using k km c by (simp only: a0) (simp add: start_def stub_env_def)
  show ?thesis
  proof (rule exI [of _ reply])
    show "replies (snd (check_command stub_env ?msg start)) =
              [[Lit (magnifier @ '' Analyzing the token. Please wait...'')], reply] \<and>
           reply ! 4 = Lit (nl @ ''            - **Token Price**: $'') \<and>
           reply ! 5 = Val (Num 150) \<and>
           map snd (calls (snd (check_command stub_env ?msg start))) =
             [HttpGet (''https://api.solscan.io/api/v1/tokenInfo/'' @ mint_A)
                [(''Authorization'', ''Bearer '')] [],
              GetTokenAccountsByOwner (PublicKey wallet_A) (PublicKey mint_A),
              HttpGet ''https://api.coingecko.com/api/v3/coins/markets'' []
                [(''vs_currency'', ''usd''), (''ids'', ''solana,bitcoin,ethereum'')],
              GetRecentBlockhash]"
      using r' q p' k' by (intro conjI)
  qed
qed

section \<open>Empty arguments\<close>

text \<open>
  Claim C10. The number of arguments is the number of spaces in the message text, so empty
  arguments count. A command followed by two spaces and one argument has the arguments
  \<^verbatim>\<open>''\<close> and the argument: \<^verbatim>\<open>/check\<close> passes its arity check and runs the analysis with
  the empty string as token address, which reaches the metadata request, and
  \<^verbatim>\<open>/balance\<close> hands the empty string to the key parser.
\<close>

theorem double_space_forwards_empty_address:
  assumes "CHR '' '' \<notin> set cmd" and "CHR '' '' \<notin> set arg"
  shows "length (command_args msg) = count_list msg (CHR '' '') \<and>
         command_args (cmd @ ''  '' @ arg) = [[], arg] \<and>
         check_command env (cmd @ ''  '' @ arg) s =
           (case check_try env arg [] s of
              (Inr u, s1) \<Rightarrow> (Inr u, s1)
            | (Inl error, s1) \<Rightarrow> (Inr (), ctx_reply env (error_reply error) s1)) \<and>
         (Direct, HttpGet (SOLSCAN_API_URL @ ''/api/v1/tokenInfo/'')
                    [(''Authorization'', ''Bearer '' @ SOLSCAN_API_KEY env)] [])
           \<in> set (calls (snd (check_command env (cmd @ ''  '' @ arg) s))) \<and>
         balance_command env (cmd @ ''  '' @ arg) s =
           (case balance_try env [] s of
              (Inr u, s1) \<Rightarrow> (Inr u, s1)
            | (Inl error, s1) \<Rightarrow> (Inr (), ctx_reply env (error_reply error) s1))"
proof -
  have args: "command_args (cmd @ ''  '' @ arg) = [[], arg]"
    using assms by (rule command_args_double_space)
  have chk: "check_command env (cmd @ ''  '' @ arg) s =
           (case check_try env arg [] s of
              (Inr u, s1) \<Rightarrow> (Inr u, s1)
            | (Inl error, s1) \<Rightarrow> (Inr (), ctx_reply env (error_reply error) s1))"
    by (simp only: check_command_def args Let_def) simp
  have bal: "balance_command env (cmd @ ''  '' @ arg) s =
           (case balance_try env [] s of
              (Inr u, s1) \<Rightarrow> (Inr u, s1)
            | (Inl error, s1) \<Rightarrow> (Inr (), ctx_reply env (error_reply error) s1))"
    by (simp only: balance_command_def args Let_def) simp
  obtain r s1 where ct: "check_try env arg [] s = (r, s1)"
    by (cases "check_try env arg [] s")
  from check_try_first_call [of env arg "[]" s] ct obtain more where
    c: "calls s1 = calls s @ (Direct, HttpGet (SOLSCAN_API_URL @ ''/api/v1/tokenInfo/'')
                    [(''Authorization'', ''Bearer '' @ SOLSCAN_API_KEY env)] []) # more"
    by auto
  have mem: "(Direct, HttpGet (SOLSCAN_API_URL @ ''/api/v1/tokenInfo/'')
                    [(''Authorization'', ''Bearer '' @ SOLSCAN_API_KEY env)] [])
           \<in> set (calls (snd (check_command env (cmd @ ''  '' @ arg) s)))"
    using chk ct c by (cases r) simp_all
  from length_command_args [of msg] args chk mem bal show ?thesis
    by blast
qed

theorem double_space_forwards_empty_address_witness:
  "length (command_args (''/check  '' @ mint_A)) = 2 \<and>
   command_args (''/check  '' @ mint_A) = [[], mint_A] \<and>
   (Direct, HttpGet ''https://api.solscan.io/api/v1/tokenInfo/'' [(''Authorization'', ''Bearer '')] [])
      \<in> set (calls (snd (check_command stub_env (''/check  '' @ mint_A) start)))"
proof -
  have h1: "CHR '' '' \<notin> set ''/check''"
    by simp
  have h2: "CHR '' '' \<notin> set mint_A"
    by (simp add: mint_A_def)
  have key: "SOLSCAN_API_KEY stub_env = []"
    by (simp add: stub_env_def)
  note th = double_space_forwards_empty_address
    [OF h1 h2, of "''/check  '' @ mint_A" stub_env start]
  have a: "command_args (''/check  '' @ mint_A) = [[], mint_A]"
    using th [THEN conjunct2, THEN conjunct1] by simp
  have b: "(Direct, HttpGet ''https://api.solscan.io/api/v1/tokenInfo/''
              [(''Authorization'', ''Bearer '')] [])
      \<in> set (calls (snd (check_command stub_env (''/check  '' @ mint_A) start)))"
    using th [THEN conjunct2, THEN conjunct2, THEN conjunct2, THEN conjunct1] key
    by (simp add: SOLSCAN_API_URL_def)
  from a b show ?thesis
    by simp
qed

end
